theory Spec2Isabelle
  imports Complex_Main "HOL-Library.Log_Nat"
begin

section \<open>Python values used by the three programs\<close>

text \<open>
  The programs read and write JSON dictionaries. A dictionary with a known set of keys is a
  record whose fields are options: \<open>None\<close> is an absent key (\<open>'k' in d\<close> is false and
  \<open>d.get('k', x)\<close> gives \<open>x\<close>), \<open>Some v\<close> a present one. Numbers (Python's \<open>int\<close> and
  \<open>float\<close>) are rationals. The pass rate that \<open>evaluate_all\<close> computes from its two
  counts is computed as Python does, in double precision (\<open>to_double\<close> below); the
  arithmetic of the checker and of the comment poster on the numbers of a loaded dictionary
  is exact. Strings are lists of 8-bit characters, read as ASCII text.
\<close>

datatype error = ZeroDivisionError | KeyError string | ExternalCallFailure string

text \<open>
  \<open>fmt x spec\<close> stands for Python's \<open>format(x, spec)\<close> on a float, which is what an
  f-string field \<open>{x:spec}\<close> evaluates; \<open>{x}\<close> is \<open>format(x, '')\<close>. The rendering of floats
  belongs to the Python runtime and is a parameter of the model.
\<close>

type_synonym formatter = "rat \<Rightarrow> string \<Rightarrow> string"

subsection \<open>String operations\<close>

definition lower_char :: "char \<Rightarrow> char" where
  "lower_char c =
     (let n = (of_char c :: nat) in if 65 \<le> n \<and> n \<le> 90 then char_of (n + 32) else c)"

definition lower :: "string \<Rightarrow> string" where
  \<comment> \<open>\<open>s.lower()\<close>\<close>
  "lower s = map lower_char s"

fun startswith :: "string \<Rightarrow> string \<Rightarrow> bool" where
  \<comment> \<open>\<open>s.startswith(p)\<close>\<close>
  "startswith s [] = True"
| "startswith [] (p # ps) = False"
| "startswith (c # cs) (p # ps) = (c = p \<and> startswith cs ps)"

fun str_in :: "string \<Rightarrow> string \<Rightarrow> bool" where
  \<comment> \<open>\<open>sub in s\<close> on strings\<close>
  "str_in sub [] = (sub = [])"
| "str_in sub (c # cs) = (startswith (c # cs) sub \<or> str_in sub cs)"

definition isdigit :: "char \<Rightarrow> bool" where
  \<comment> \<open>\<open>ch.isdigit()\<close> on an ASCII character\<close>
  "isdigit c = (let n = (of_char c :: nat) in 48 \<le> n \<and> n \<le> 57)"

definition digit_char :: "nat \<Rightarrow> char" where
  "digit_char d = char_of (48 + d)"

fun str_nat :: "nat \<Rightarrow> string" where
  \<comment> \<open>\<open>str(n)\<close> of a non-negative \<open>int\<close>\<close>
  "str_nat n = (if n < 10 then [digit_char n] else str_nat (n div 10) @ [digit_char (n mod 10)])"

declare str_nat.simps [simp del]

fun join :: "string \<Rightarrow> string list \<Rightarrow> string" where
  \<comment> \<open>\<open>sep.join(xs)\<close>\<close>
  "join sep [] = []"
| "join sep [x] = x"
| "join sep (x # y # ys) = x @ sep @ join sep (y # ys)"

definition hex_digit :: "nat \<Rightarrow> char" where
  "hex_digit d = (if d < 10 then char_of (48 + d) else char_of (87 + d))"

definition repr_char :: "char \<Rightarrow> char \<Rightarrow> string" where
  \<comment> \<open>one character inside \<open>repr(s)\<close>, for the quote character chosen\<close>
  "repr_char quote c =
     (let n = (of_char c :: nat) in
      if c = quote \<or> c = CHR 0x5C then [CHR 0x5C, c]
      else if n = 9 then [CHR 0x5C, CHR ''t'']
      else if n = 10 then [CHR 0x5C, CHR ''n'']
      else if n = 13 then [CHR 0x5C, CHR ''r'']
      else if n < 32 \<or> n = 127 then [CHR 0x5C, CHR ''x'', hex_digit (n div 16), hex_digit (n mod 16)]
      else [c])"

definition repr_str :: "string \<Rightarrow> string" where
  \<comment> \<open>\<open>repr(s)\<close>: single quotes, unless the string has a single quote and no double quote\<close>
  "repr_str s =
     (let quote = (if CHR 0x27 \<in> set s \<and> CHR 0x22 \<notin> set s then CHR 0x22 else CHR 0x27)
      in [quote] @ concat (map (repr_char quote) s) @ [quote])"

definition repr_bool :: "bool \<Rightarrow> string" where
  "repr_bool b = (if b then ''True'' else ''False'')"

subsection \<open>Double-precision arithmetic\<close>

text \<open>
  A double is a rational \<open>m * 2 ^ e\<close> with \<open>m\<close> an integer of at most 53 bits.
  \<open>to_double x\<close> is the double nearest to \<open>x\<close>, a tie going to the even \<open>m\<close>, which is
  how Python rounds the quotient of two \<open>int\<close>s and the product of two \<open>float\<close>s. The
  exponent is not bounded: overflow and subnormal numbers are out of reach of a ratio of
  two list lengths and its product with 100.
\<close>

definition round_half_even :: "rat \<Rightarrow> int" where
  "round_half_even x =
     (let f = \<lfloor>x\<rfloor>; d = x - of_int f in
      if d < 1 / 2 then f
      else if d > 1 / 2 then f + 1
      else if even f then f else f + 1)"

definition ilog2 :: "rat \<Rightarrow> int" where
  "ilog2 x =
     (case quotient_of x of (a, b) \<Rightarrow>
        (let k = bitlen a - bitlen b in if 2 powi k \<le> x then k else k - 1))"

definition to_double :: "rat \<Rightarrow> rat" where
  "to_double x =
     (if x = 0 then 0
      else (let e = ilog2 \<bar>x\<bar> - 52;
                m = round_half_even (\<bar>x\<bar> / 2 powi e)
            in sgn x * of_int m * 2 powi e))"

definition double_div :: "rat \<Rightarrow> rat \<Rightarrow> rat" where
  "double_div a b = to_double (a / b)"

definition double_mul :: "rat \<Rightarrow> rat \<Rightarrow> rat" where
  "double_mul a b = to_double (a * b)"

section \<open>The results dictionary\<close>

text \<open>
  One entry of a test's \<open>rule_validation\<close> list: \<open>{'rule': ..., 'passed': ...}\<close>.
\<close>

record rule_outcome =
  o_rule :: "string option"
  o_passed :: "bool option"

definition str_rule_outcome :: "rule_outcome \<Rightarrow> string" where
  \<comment> \<open>\<open>str(rule)\<close> of the dictionary, keys in the order \<open>validate_rules\<close> writes them\<close>
  "str_rule_outcome rule =
     ''{'' @ join '', ''
       ((case o_rule rule of None \<Rightarrow> [] | Some d \<Rightarrow> [repr_str ''rule'' @ '': '' @ repr_str d]) @
        (case o_passed rule of None \<Rightarrow> [] | Some b \<Rightarrow> [repr_str ''passed'' @ '': '' @ repr_bool b]))
     @ ''}''"

record metrics =
  m_semantic_similarity :: "rat option"
  m_similarity_threshold :: "rat option"
  m_similarity_passed :: "bool option"
  m_hallucination :: "bool option"

text \<open>One entry of the detailed \<open>results\<close> list.\<close>

record test_result =
  t_test_id :: "string option"
  t_category :: "string option"
  t_input :: "string option"
  t_expected :: "string option"
  t_generated :: "string option"
  t_passed :: "bool option"
  t_correct :: "bool option"
  t_metrics :: "metrics option"
  t_semantic_similarity :: "rat option"
  t_rule_validation :: "rule_outcome list option"

text \<open>The results dictionary that the runner saves and the checker and the poster load.\<close>

record results =
  r_pass_rate :: "rat option"
  r_passed :: "rat option"
  r_failed :: "rat option"
  r_total_tests :: "rat option"
  r_results :: "test_result list option"
  r_model_used :: "string option"
  r_timestamp :: "string option"
  r_evaluation_type :: "string option"

definition empty_metrics :: metrics where
  "empty_metrics = \<lparr>m_semantic_similarity = None, m_similarity_threshold = None,
     m_similarity_passed = None, m_hallucination = None\<rparr>"

definition empty_test :: test_result where
  \<comment> \<open>the dictionary \<open>{}\<close> as an entry of the detailed list\<close>
  "empty_test = \<lparr>t_test_id = None, t_category = None, t_input = None, t_expected = None,
     t_generated = None, t_passed = None, t_correct = None, t_metrics = None,
     t_semantic_similarity = None, t_rule_validation = None\<rparr>"

definition empty_results :: results where
  \<comment> \<open>the dictionary \<open>{}\<close> as a results dictionary\<close>
  "empty_results = \<lparr>r_pass_rate = None, r_passed = None, r_failed = None, r_total_tests = None,
     r_results = None, r_model_used = None, r_timestamp = None, r_evaluation_type = None\<rparr>"

section \<open>check_quality_gates.py\<close>

record QualityConfig =
  min_pass_rate :: rat
  min_semantic_similarity :: rat
  max_hallucination_rate :: rat
  critical_categories :: "string list"

definition QualityConfig_init ::
  "rat \<Rightarrow> rat \<Rightarrow> rat \<Rightarrow> string list option \<Rightarrow> QualityConfig" where
  \<comment> \<open>the dataclass constructor followed by \<open>__post_init__\<close>\<close>
  "QualityConfig_init mpr mss mhr cc =
     \<lparr>min_pass_rate = mpr, min_semantic_similarity = mss, max_hallucination_rate = mhr,
      critical_categories = (case cc of None \<Rightarrow> [''fraud_detection'', ''security''] | Some cs \<Rightarrow> cs)\<rparr>"

definition QualityConfig_default :: QualityConfig where
  \<comment> \<open>\<open>QualityConfig()\<close>\<close>
  "QualityConfig_default = QualityConfig_init 95 (85 / 100) (2 / 100) None"

record QualityGateChecker =
  config :: QualityConfig
  failed :: "string list"
  warnings :: "string list"
  passed_checks :: "string list"

definition QualityGateChecker_init :: "QualityConfig option \<Rightarrow> QualityGateChecker" where
  "QualityGateChecker_init cfg =
     \<lparr>config = (case cfg of None \<Rightarrow> QualityConfig_default | Some c \<Rightarrow> c),
      failed = [], warnings = [], passed_checks = []\<rparr>"

subsection \<open>The pass-rate check\<close>

definition pass_rate_verdict ::
  "formatter \<Rightarrow> QualityGateChecker \<Rightarrow> rat \<Rightarrow> (error + bool) \<times> QualityGateChecker" where
  \<comment> \<open>the second half of \<open>check_pass_rate\<close>, from \<open>threshold = ...\<close> on\<close>
  "pass_rate_verdict fmt self pass_rate =
     (let threshold = min_pass_rate (config self) in
      if pass_rate \<ge> threshold then
        (Inr True, self\<lparr>passed_checks := passed_checks self @
           [''Pass rate: '' @ fmt pass_rate ''.1f'' @ ''% >= '' @ fmt threshold [] @ ''%'']\<rparr>)
      else
        (Inr False, self\<lparr>failed := failed self @
           [''Pass rate '' @ fmt pass_rate ''.1f'' @ ''% below threshold '' @ fmt threshold [] @ ''%'']\<rparr>))"

definition missing_data :: "QualityGateChecker \<Rightarrow> (error + bool) \<times> QualityGateChecker" where
  "missing_data self =
     (Inr False, self\<lparr>failed := failed self @ [''Cannot calculate pass rate - missing data'']\<rparr>)"

definition check_pass_rate ::
  "formatter \<Rightarrow> QualityGateChecker \<Rightarrow> results \<Rightarrow> (error + bool) \<times> QualityGateChecker" where
  "check_pass_rate fmt self res =
     (case r_pass_rate res of
        Some pass_rate \<Rightarrow> pass_rate_verdict fmt self pass_rate
      | None \<Rightarrow>
          (case r_passed res of
             None \<Rightarrow> missing_data self
           | Some passed \<Rightarrow>
               (case r_total_tests res of
                  None \<Rightarrow> missing_data self
                | Some total_tests \<Rightarrow>
                    if total_tests = 0 then (Inl ZeroDivisionError, self)
                    else pass_rate_verdict fmt self ((passed / total_tests) * 100))))"

subsection \<open>The critical-category check\<close>

definition result_category :: "test_result \<Rightarrow> string" where
  \<comment> \<open>\<open>result.get('category', 'unknown')\<close>\<close>
  "result_category result = (case t_category result of None \<Rightarrow> ''unknown'' | Some c \<Rightarrow> c)"

definition result_test_id :: "test_result \<Rightarrow> string" where
  \<comment> \<open>\<open>result.get('test_id', 'unknown')\<close>\<close>
  "result_test_id result = (case t_test_id result of None \<Rightarrow> ''unknown'' | Some i \<Rightarrow> i)"

definition result_passed :: "test_result \<Rightarrow> bool" where
  \<comment> \<open>\<open>result.get('passed', result.get('correct', False))\<close>\<close>
  "result_passed result =
     (case t_passed result of
        Some p \<Rightarrow> p
      | None \<Rightarrow> (case t_correct result of Some c \<Rightarrow> c | None \<Rightarrow> False))"

definition critical_failure_message :: "test_result \<Rightarrow> string" where
  "critical_failure_message result =
     ''Critical test failed: '' @ result_test_id result @
     '' (category: '' @ result_category result @ '')''"

text \<open>
  The loop body of \<open>check_critical_tests\<close>; the loop state is the checker together with
  the locals \<open>all_critical_passed\<close> and \<open>critical_count\<close>.
\<close>

definition critical_step ::
  "test_result \<Rightarrow> QualityGateChecker \<times> bool \<times> nat \<Rightarrow> QualityGateChecker \<times> bool \<times> nat" where
  "critical_step result st =
     (case st of (self, all_critical_passed, critical_count) \<Rightarrow>
        if result_category result \<in> set (critical_categories (config self)) then
          (if \<not> result_passed result then
             (self\<lparr>failed := failed self @ [critical_failure_message result]\<rparr>,
              False, critical_count + 1)
           else (self, all_critical_passed, critical_count + 1))
        else (self, all_critical_passed, critical_count))"

definition get_results :: "results \<Rightarrow> test_result list" where
  \<comment> \<open>\<open>results.get('results', [])\<close>\<close>
  "get_results res = (case r_results res of None \<Rightarrow> [] | Some rs \<Rightarrow> rs)"

definition check_critical_tests ::
  "QualityGateChecker \<Rightarrow> results \<Rightarrow> bool \<times> QualityGateChecker" where
  "check_critical_tests self res =
     (let test_results = get_results res in
      if test_results = [] then
        (True, self\<lparr>warnings := warnings self @ [''No detailed results for critical test check'']\<rparr>)
      else
        (case fold critical_step test_results (self, True, 0) of
           (self, all_critical_passed, critical_count) \<Rightarrow>
             (all_critical_passed,
              if critical_count > 0 then
                (if all_critical_passed then
                   self\<lparr>passed_checks := passed_checks self @
                     [''All '' @ str_nat critical_count @ '' critical tests passed'']\<rparr>
                 else self)
              else self\<lparr>warnings := warnings self @ [''No critical tests found'']\<rparr>)))"

subsection \<open>The semantic-similarity check\<close>

definition result_similarity :: "test_result \<Rightarrow> rat option" where
  \<comment> \<open>the score one result contributes: \<open>metrics.semantic_similarity\<close>, else the flat field\<close>
  "result_similarity result =
     (case t_metrics result of
        None \<Rightarrow> t_semantic_similarity result
      | Some m \<Rightarrow>
          (case m_semantic_similarity m of
             Some sim \<Rightarrow> Some sim
           | None \<Rightarrow> t_semantic_similarity result))"

definition check_semantic_similarity ::
  "formatter \<Rightarrow> QualityGateChecker \<Rightarrow> results \<Rightarrow> bool \<times> QualityGateChecker" where
  "check_semantic_similarity fmt self res =
     (let test_results = get_results res in
      if test_results = [] then
        (True, self\<lparr>warnings := warnings self @ [''No detailed results for similarity check'']\<rparr>)
      else
        (let similarities = List.map_filter result_similarity test_results in
         if similarities = [] then
           (True, self\<lparr>warnings := warnings self @ [''No similarity scores found'']\<rparr>)
         else
           (let avg_similarity = sum_list similarities / of_nat (length similarities);
                threshold = min_semantic_similarity (config self) in
            if avg_similarity \<ge> threshold then
              (True, self\<lparr>passed_checks := passed_checks self @
                 [''Avg semantic similarity: '' @ fmt avg_similarity ''.3f'' @ '' >= '' @
                  fmt threshold []]\<rparr>)
            else
              (False, self\<lparr>failed := failed self @
                 [''Avg semantic similarity '' @ fmt avg_similarity ''.3f'' @
                  '' below threshold '' @ fmt threshold []]\<rparr>))))"

subsection \<open>The hallucination-rate check\<close>

definition metric_flagged :: "test_result \<Rightarrow> bool" where
  \<comment> \<open>\<open>'metrics' in result and 'hallucination' in metrics and metrics['hallucination']\<close>\<close>
  "metric_flagged result =
     (case t_metrics result of
        None \<Rightarrow> False
      | Some m \<Rightarrow> (case m_hallucination m of None \<Rightarrow> False | Some h \<Rightarrow> h))"

definition rule_flagged :: "rule_outcome \<Rightarrow> bool" where
  \<comment> \<open>\<open>'hallucination' in str(rule).lower() and not rule.get('passed', True)\<close>\<close>
  "rule_flagged rule =
     (str_in ''hallucination'' (lower (str_rule_outcome rule)) \<and>
      \<not> (case o_passed rule of None \<Rightarrow> True | Some p \<Rightarrow> p))"

fun scan_rules :: "rule_outcome list \<Rightarrow> nat \<Rightarrow> nat" where
  \<comment> \<open>the inner loop over \<open>result['rule_validation']\<close>: add one and \<open>break\<close> at the first match\<close>
  "scan_rules [] hallucinations = hallucinations"
| "scan_rules (rule # rules) hallucinations =
     (if rule_flagged rule then hallucinations + 1 else scan_rules rules hallucinations)"

definition hallucination_step :: "test_result \<Rightarrow> nat \<Rightarrow> nat" where
  \<comment> \<open>the body of the loop over the results, on the counter \<open>hallucinations\<close>\<close>
  "hallucination_step result hallucinations =
     (let hallucinations = (if metric_flagged result then hallucinations + 1 else hallucinations)
      in case t_rule_validation result of
           None \<Rightarrow> hallucinations
         | Some rules \<Rightarrow> scan_rules rules hallucinations)"

definition count_hallucinations :: "test_result list \<Rightarrow> nat" where
  "count_hallucinations test_results = fold hallucination_step test_results 0"

definition check_hallucination_rate ::
  "formatter \<Rightarrow> QualityGateChecker \<Rightarrow> results \<Rightarrow> bool \<times> QualityGateChecker" where
  "check_hallucination_rate fmt self res =
     (let test_results = get_results res in
      if test_results = [] then
        (True, self\<lparr>warnings := warnings self @ [''No detailed results for hallucination check'']\<rparr>)
      else
        (let hallucinations = count_hallucinations test_results;
             total = length test_results;
             hallucination_rate = (if total > 0 then of_nat hallucinations / of_nat total else 0);
             threshold = max_hallucination_rate (config self) in
         if hallucination_rate \<le> threshold then
           (True, self\<lparr>passed_checks := passed_checks self @
              [''Hallucination rate: '' @ fmt hallucination_rate ''.1%'' @ '' <= '' @
               fmt threshold ''.1%'']\<rparr>)
         else
           (False, self\<lparr>failed := failed self @
              [''Hallucination rate '' @ fmt hallucination_rate ''.1%'' @ '' above threshold '' @
               fmt threshold ''.1%'']\<rparr>)))"

subsection \<open>evaluate and get_decision\<close>

definition reset :: "QualityGateChecker \<Rightarrow> QualityGateChecker" where
  \<comment> \<open>the three assignments at the entry of \<open>evaluate\<close>\<close>
  "reset self = self\<lparr>failed := [], warnings := [], passed_checks := []\<rparr>"

text \<open>
  \<open>evaluate\<close> builds the list of the four results in order, so an exception in the first
  check leaves the others not run; the checker is returned as the call left it.
\<close>

definition evaluate ::
  "formatter \<Rightarrow> QualityGateChecker \<Rightarrow> results \<Rightarrow> (error + bool) \<times> QualityGateChecker" where
  "evaluate fmt self res =
     (case check_pass_rate fmt (reset self) res of
        (Inl e, self1) \<Rightarrow> (Inl e, self1)
      | (Inr c1, self1) \<Rightarrow>
          (case check_critical_tests self1 res of (c2, self2) \<Rightarrow>
          (case check_semantic_similarity fmt self2 res of (c3, self3) \<Rightarrow>
          (case check_hallucination_rate fmt self3 res of (c4, self4) \<Rightarrow>
             (Inr (c1 \<and> c2 \<and> c3 \<and> c4), self4)))))"

datatype decision = APPROVED | CONDITIONAL | BLOCKED

definition get_decision :: "QualityGateChecker \<Rightarrow> decision" where
  \<comment> \<open>the three constants stand for the three strings the method returns\<close>
  "get_decision self =
     (if failed self = [] then APPROVED
      else if length (failed self) \<le> 2 then CONDITIONAL
      else BLOCKED)"

section \<open>run_static_evaluation.py\<close>

text \<open>One declarative rule of a test case. \<open>rule['type']\<close> is read by index, every other key
  with \<open>get\<close>.\<close>

record rule =
  rule_type :: "string option"
  rule_keywords :: "string list option"
  rule_min :: "rat option"
  rule_max :: "rat option"
  rule_format :: "string option"
  rule_description :: "string option"

record test_case =
  tc_test_id :: "string option"
  tc_category :: "string option"
  tc_input :: "string option"
  tc_expected :: "string option"
  tc_context :: "string option"
  tc_rules :: "rule list option"

text \<open>
  The evaluator object. The language model behind \<open>generate_response\<close> and the embedding
  model behind \<open>semantic_similarity\<close> are external: both methods are fields, and either
  call may raise.
\<close>

record StaticEvaluator =
  model :: string
  generate_response :: "string \<Rightarrow> string \<Rightarrow> error + string"
  semantic_similarity :: "string \<Rightarrow> string \<Rightarrow> error + rat"

definition empty_rule :: rule where
  "empty_rule = \<lparr>rule_type = None, rule_keywords = None, rule_min = None, rule_max = None,
     rule_format = None, rule_description = None\<rparr>"

definition empty_case :: test_case where
  "empty_case = \<lparr>tc_test_id = None, tc_category = None, tc_input = None, tc_expected = None,
     tc_context = None, tc_rules = None\<rparr>"

subsection \<open>validate_rules\<close>

definition get_keywords :: "rule \<Rightarrow> string list" where
  \<comment> \<open>\<open>rule.get('keywords', [])\<close>\<close>
  "get_keywords r = (case rule_keywords r of None \<Rightarrow> [] | Some ks \<Rightarrow> ks)"

definition rule_check :: "string \<Rightarrow> string \<Rightarrow> rule \<Rightarrow> bool" where
  \<comment> \<open>the \<open>if\<close>/\<open>elif\<close> chain on \<open>rule_type\<close>; \<open>passed\<close> starts as \<open>False\<close>\<close>
  "rule_check response rt r =
     (if rt = ''contains'' then
        list_ex (\<lambda>kw. str_in (lower kw) (lower response)) (get_keywords r)
      else if rt = ''not_contains'' then
        \<not> list_ex (\<lambda>kw. str_in (lower kw) (lower response)) (get_keywords r)
      else if rt = ''length'' then
        (let min_len = (case rule_min r of None \<Rightarrow> 0 | Some m \<Rightarrow> m) in
         min_len \<le> of_nat (length response) \<and>
         (case rule_max r of None \<Rightarrow> True | Some max_len \<Rightarrow> of_nat (length response) \<le> max_len))
      else if rt = ''format'' then
        (if rule_format r = Some ''currency'' then
           str_in ''$'' response \<or> str_in ''dollars'' (lower response)
         else if rule_format r = Some ''number'' then list_ex isdigit response
         else False)
      else False)"

definition rule_result :: "string \<Rightarrow> string \<Rightarrow> rule \<Rightarrow> rule_outcome" where
  \<comment> \<open>the dictionary appended for one rule\<close>
  "rule_result response rt r =
     \<lparr>o_rule = Some (case rule_description r of None \<Rightarrow> rt | Some d \<Rightarrow> d),
      o_passed = Some (rule_check response rt r)\<rparr>"

fun validate_loop :: "string \<Rightarrow> rule list \<Rightarrow> rule_outcome list \<Rightarrow> error + rule_outcome list" where
  "validate_loop response [] results = Inr results"
| "validate_loop response (r # rules) results =
     (case rule_type r of
        None \<Rightarrow> Inl (KeyError ''type'')
      | Some rt \<Rightarrow> validate_loop response rules (results @ [rule_result response rt r]))"

definition validate_rules :: "string \<Rightarrow> rule list \<Rightarrow> error + rule_outcome list" where
  "validate_rules response rules = validate_loop response rules []"

subsection \<open>evaluate_single and evaluate_all\<close>

definition get_str :: "string option \<Rightarrow> string \<Rightarrow> string" where
  \<comment> \<open>\<open>d.get(key, default)\<close> for a string value\<close>
  "get_str v d = (case v of None \<Rightarrow> d | Some s \<Rightarrow> s)"

definition outcome_passed :: "rule_outcome \<Rightarrow> bool" where
  \<comment> \<open>\<open>r['passed']\<close> of an entry written by \<open>validate_rules\<close>, which always sets the key\<close>
  "outcome_passed r = (o_passed r = Some True)"

definition evaluate_single :: "StaticEvaluator \<Rightarrow> test_case \<Rightarrow> error + test_result" where
  "evaluate_single self tc =
     (let test_id = get_str (tc_test_id tc) ''unknown'';
          input_text = get_str (tc_input tc) [];
          expected = get_str (tc_expected tc) [];
          context = get_str (tc_context tc) [];
          rules = (case tc_rules tc of None \<Rightarrow> [] | Some rs \<Rightarrow> rs) in
      case generate_response self input_text context of
        Inl e \<Rightarrow> Inl e
      | Inr generated \<Rightarrow>
      (case semantic_similarity self generated expected of
        Inl e \<Rightarrow> Inl e
      | Inr similarity \<Rightarrow>
      (case (if rules \<noteq> [] then validate_rules generated rules else Inr []) of
        Inl e \<Rightarrow> Inl e
      | Inr rule_results \<Rightarrow>
          (let all_rules_passed =
                 (if rule_results \<noteq> [] then list_all outcome_passed rule_results else True);
               similarity_passed = (similarity \<ge> 85 / 100);
               passed = (similarity_passed \<and> all_rules_passed) in
           Inr \<lparr>t_test_id = Some test_id, t_category = None, t_input = Some input_text,
                t_expected = Some expected, t_generated = Some generated,
                t_passed = Some passed, t_correct = None,
                t_metrics = Some \<lparr>m_semantic_similarity = Some similarity,
                                   m_similarity_threshold = Some (85 / 100),
                                   m_similarity_passed = Some similarity_passed,
                                   m_hallucination = None\<rparr>,
                t_semantic_similarity = None,
                t_rule_validation = Some rule_results\<rparr>))))"

text \<open>The loop of \<open>evaluate_all\<close>, on the locals \<open>results\<close> and \<open>passed_count\<close>.\<close>

fun evaluate_loop ::
  "StaticEvaluator \<Rightarrow> test_case list \<Rightarrow> test_result list \<times> int \<Rightarrow> error + test_result list \<times> int" where
  "evaluate_loop self [] acc = Inr acc"
| "evaluate_loop self (tc # tcs) acc =
     (case acc of (results, passed_count) \<Rightarrow>
        (case evaluate_single self tc of
           Inl e \<Rightarrow> Inl e
         | Inr result \<Rightarrow>
             (case t_passed result of
                None \<Rightarrow> Inl (KeyError ''passed'')
              | Some p \<Rightarrow>
                  evaluate_loop self tcs
                    (results @ [result], if p then passed_count + 1 else passed_count))))"

definition evaluate_all :: "StaticEvaluator \<Rightarrow> string \<Rightarrow> test_case list \<Rightarrow> error + results" where
  \<comment> \<open>\<open>now\<close> is \<open>datetime.now().isoformat()\<close>\<close>
  "evaluate_all self now test_cases =
     (case evaluate_loop self test_cases ([], 0) of
        Inl e \<Rightarrow> Inl e
      | Inr (results, passed_count) \<Rightarrow>
          (let pass_rate =
                 (if test_cases \<noteq> [] then
                    double_mul (double_div (of_int passed_count) (of_nat (length test_cases))) 100
                  else 0) in
           Inr \<lparr>r_pass_rate = Some pass_rate,
                r_passed = Some (of_int passed_count),
                r_failed = Some (of_int (int (length test_cases) - passed_count)),
                r_total_tests = Some (of_nat (length test_cases)),
                r_results = Some results,
                r_model_used = Some (model self),
                r_timestamp = Some now,
                r_evaluation_type = Some ''static''\<rparr>))"

section \<open>post_pr_results.py\<close>

record normalized =
  n_model_used :: string
  n_timestamp :: string
  n_pass_rate :: rat
  n_passed :: rat
  n_failed :: rat
  n_total_tests :: rat

definition get_num :: "rat option \<Rightarrow> rat \<Rightarrow> rat" where
  \<comment> \<open>\<open>d.get(key, default)\<close> for a number\<close>
  "get_num v d = (case v of None \<Rightarrow> d | Some x \<Rightarrow> x)"

definition normalize_results :: "string \<Rightarrow> results \<Rightarrow> error + normalized" where
  \<comment> \<open>\<open>now\<close> is \<open>datetime.now().isoformat()\<close>\<close>
  "normalize_results now res =
     (case (case r_pass_rate res of
              Some pr \<Rightarrow> Inr pr
            | None \<Rightarrow>
                (case r_passed res of
                   None \<Rightarrow> Inr 0
                 | Some passed \<Rightarrow>
                     (case r_total_tests res of
                        None \<Rightarrow> Inr 0
                      | Some total_tests \<Rightarrow>
                          if total_tests = 0 then Inl ZeroDivisionError
                          else Inr ((passed / total_tests) * 100)))) of
        Inl e \<Rightarrow> Inl e
      | Inr pass_rate \<Rightarrow>
          (let passed = get_num (r_passed res) 0;
               failed_count = get_num (r_failed res) 0 in
           Inr \<lparr>n_model_used = get_str (r_model_used res) ''gpt-4o-mini'',
                n_timestamp = get_str (r_timestamp res) now,
                n_pass_rate = pass_rate,
                n_passed = passed,
                n_failed = failed_count,
                n_total_tests = get_num (r_total_tests res) (passed + failed_count)\<rparr>))"

text \<open>
  \<open>create_pr_comment\<close> returns one Markdown text. The model keeps what the text is built
  from: the status line, the values of the summary table, which of the three decision
  paragraphs is appended, and the link, present when \<open>run_url\<close> is a non-empty string.
\<close>

datatype status = PASSED | WARNING | FAILED

datatype merge_decision = APPROVED_FOR_MERGE | CONDITIONAL_APPROVAL | BLOCKED_FROM_MERGE

record pr_comment =
  c_status :: status
  c_pass_rate :: rat
  c_passed :: rat
  c_total :: rat
  c_failed :: rat
  c_model_used :: string
  c_timestamp :: string
  c_decision :: merge_decision
  c_run_url :: "string option"

definition create_pr_comment :: "string \<Rightarrow> results \<Rightarrow> string option \<Rightarrow> error + pr_comment" where
  "create_pr_comment now res run_url =
     (case normalize_results now res of
        Inl e \<Rightarrow> Inl e
      | Inr nrm \<Rightarrow>
          (let pass_rate = n_pass_rate nrm;
               passed = n_passed nrm;
               total = n_total_tests nrm in
           Inr \<lparr>c_status = (if pass_rate \<ge> 95 then PASSED
                            else if pass_rate \<ge> 90 then WARNING
                            else FAILED),
                c_pass_rate = pass_rate,
                c_passed = passed,
                c_total = total,
                c_failed = total - passed,
                c_model_used = n_model_used nrm,
                c_timestamp = n_timestamp nrm,
                c_decision = (if pass_rate \<ge> 95 then APPROVED_FOR_MERGE
                              else if pass_rate \<ge> 90 then CONDITIONAL_APPROVAL
                              else BLOCKED_FROM_MERGE),
                c_run_url = (case run_url of
                               None \<Rightarrow> None
                             | Some u \<Rightarrow> if u = [] then None else Some u)\<rparr>))"

section \<open>Quantities the properties speak of\<close>

text \<open>
  The tests of a critical category, and those among them that are not marked passed.
\<close>

definition is_critical :: "QualityConfig \<Rightarrow> test_result \<Rightarrow> bool" where
  "is_critical cfg result = (result_category result \<in> set (critical_categories cfg))"

definition critical_failures :: "QualityConfig \<Rightarrow> test_result list \<Rightarrow> test_result list" where
  "critical_failures cfg test_results =
     filter (\<lambda>result. is_critical cfg result \<and> \<not> result_passed result) test_results"

text \<open>
  The results dictionaries on which the pass rate is derived from a \<open>total_tests\<close> of 0.
\<close>

definition zero_total :: "results \<Rightarrow> bool" where
  "zero_total res =
     (r_pass_rate res = None \<and> r_passed res \<noteq> None \<and> r_total_tests res = Some 0)"

text \<open>
  The result of each of the four checks, run on its own on a checker whose lists are empty,
  the number of checks that failed, and the number of entries the checks add to
  \<open>failed\<close>.
\<close>

definition pass_rate_ok :: "formatter \<Rightarrow> QualityGateChecker \<Rightarrow> results \<Rightarrow> bool" where
  "pass_rate_ok fmt self res = (fst (check_pass_rate fmt (reset self) res) = Inr True)"

definition critical_ok :: "QualityGateChecker \<Rightarrow> results \<Rightarrow> bool" where
  "critical_ok self res = fst (check_critical_tests (reset self) res)"

definition similarity_ok :: "formatter \<Rightarrow> QualityGateChecker \<Rightarrow> results \<Rightarrow> bool" where
  "similarity_ok fmt self res = fst (check_semantic_similarity fmt (reset self) res)"

definition hallucination_ok :: "formatter \<Rightarrow> QualityGateChecker \<Rightarrow> results \<Rightarrow> bool" where
  "hallucination_ok fmt self res = fst (check_hallucination_rate fmt (reset self) res)"

definition failed_check_count :: "formatter \<Rightarrow> QualityGateChecker \<Rightarrow> results \<Rightarrow> nat" where
  "failed_check_count fmt self res =
     length (filter Not [pass_rate_ok fmt self res, critical_ok self res,
                         similarity_ok fmt self res, hallucination_ok fmt self res])"

definition failure_entries :: "formatter \<Rightarrow> QualityGateChecker \<Rightarrow> results \<Rightarrow> nat" where
  "failure_entries fmt self res =
     (if pass_rate_ok fmt self res then 0 else 1) +
     length (critical_failures (config self) (get_results res)) +
     (if similarity_ok fmt self res then 0 else 1) +
     (if hallucination_ok fmt self res then 0 else 1)"

text \<open>
  A formatter to run the model on given inputs: it renders a field as its format
  specification. No property below depends on how a number is rendered.
\<close>

definition show_spec :: formatter where
  "show_spec x spec = ''{:'' @ spec @ ''}''"

text \<open>
  \<open>appended self t\<close> is \<open>self\<close> with the findings of \<open>t\<close> added at the end of its three lists.
\<close>

definition appended :: "QualityGateChecker \<Rightarrow> QualityGateChecker \<Rightarrow> QualityGateChecker" where
  "appended self t = self\<lparr>failed := failed self @ failed t, warnings := warnings self @ warnings t,
      passed_checks := passed_checks self @ passed_checks t\<rparr>"

text \<open>
  The hallucination check as the specification words it: a test qualifies when its
  hallucination metric is truthy or one of its rule entries is flagged, and counts once.
\<close>

definition rules_flagged :: "test_result \<Rightarrow> bool" where
  "rules_flagged result =
     (case t_rule_validation result of None \<Rightarrow> False | Some rules \<Rightarrow> list_ex rule_flagged rules)"

definition qualifies :: "test_result \<Rightarrow> bool" where
  "qualifies result = (metric_flagged result \<or> rules_flagged result)"

text \<open>
  The rule kinds that \<open>validate_rules\<close> knows, and the results marked passed.
\<close>

definition known_kinds :: "string list" where
  "known_kinds = [''contains'', ''not_contains'', ''length'', ''format'']"

definition passed_results :: "test_result list \<Rightarrow> test_result list" where
  "passed_results rs = filter (\<lambda>r. t_passed r = Some True) rs"

subsection \<open>Inputs the properties are run on\<close>

definition failing_critical :: "string \<Rightarrow> test_result" where
  "failing_critical i = empty_test\<lparr>t_test_id := Some i, t_category := Some ''fraud_detection'',
     t_passed := Some False\<rparr>"

definition three_critical_failures :: results where
  "three_critical_failures = empty_results\<lparr>r_pass_rate := Some 100,
     r_results := Some [failing_critical ''t1'', failing_critical ''t2'', failing_critical ''t3'']\<rparr>"

definition five_critical_failures :: results where
  "five_critical_failures = empty_results\<lparr>r_pass_rate := Some 100,
     r_results := Some (map failing_critical [''t1'', ''t2'', ''t3'', ''t4'', ''t5''])\<rparr>"

definition zero_tests :: results where
  "zero_tests = empty_results\<lparr>r_passed := Some 0, r_total_tests := Some 0\<rparr>"

definition gate_example :: "rat \<Rightarrow> bool \<Rightarrow> rat \<Rightarrow> bool \<Rightarrow> results" where
  "gate_example rate ok sim flagged = empty_results\<lparr>r_pass_rate := Some rate,
     r_results := Some [empty_test\<lparr>t_test_id := Some ''t1'', t_category := Some ''fraud_detection'',
       t_passed := Some ok, t_semantic_similarity := Some sim,
       t_metrics := Some (empty_metrics\<lparr>m_hallucination := Some flagged\<rparr>)\<rparr>]\<rparr>"

definition flagged_twice :: test_result where
  "flagged_twice = empty_test\<lparr>
     t_metrics := Some (empty_metrics\<lparr>m_hallucination := Some True\<rparr>),
     t_rule_validation := Some [\<lparr>o_rule = Some ''No hallucination'', o_passed = Some False\<rparr>]\<rparr>"

definition half_config :: QualityConfig where
  "half_config = QualityConfig_init 95 (85 / 100) (1 / 2) None"

definition one_of_two_flagged :: results where
  "one_of_two_flagged = empty_results\<lparr>r_pass_rate := Some 100,
     r_results := Some [flagged_twice, empty_test]\<rparr>"

definition fraud_failure :: results where
  "fraud_failure = empty_results\<lparr>r_results :=
     Some [empty_test\<lparr>t_test_id := Some ''test_003'', t_category := Some ''fraud_detection'',
             t_passed := Some False\<rparr>]\<rparr>"

definition no_critical :: results where
  "no_critical = empty_results\<lparr>r_results :=
     Some [empty_test\<lparr>t_test_id := Some ''test_001'', t_category := Some ''account_balance'',
             t_passed := Some False\<rparr>]\<rparr>"

definition sample_rules :: "rule list" where
  "sample_rules =
     [empty_rule\<lparr>rule_type := Some ''contains'', rule_keywords := Some [''balance'', ''$5,423.67''],
        rule_description := Some ''Contains balance amount''\<rparr>,
      empty_rule\<lparr>rule_type := Some ''regex''\<rparr>,
      empty_rule\<lparr>rule_type := Some ''not_contains'', rule_keywords := Some [''ignore'', ''normal'']\<rparr>]"

definition echo_evaluator :: StaticEvaluator where
  "echo_evaluator = \<lparr>model = ''gpt-4o-mini'',
     generate_response = (\<lambda>prompt context. Inr prompt),
     semantic_similarity = (\<lambda>text1 text2. Inr (if text1 = text2 then 1 else 0))\<rparr>"

definition two_cases :: "test_case list" where
  "two_cases =
     [empty_case\<lparr>tc_test_id := Some ''a'', tc_input := Some ''balance'', tc_expected := Some ''balance'',
        tc_rules := Some [empty_rule\<lparr>rule_type := Some ''contains'', rule_keywords := Some [''Balance'']\<rparr>]\<rparr>,
      empty_case\<lparr>tc_test_id := Some ''b'', tc_input := Some ''hello'', tc_expected := Some ''goodbye''\<rparr>]"

definition passing_case :: test_case where
  "passing_case = empty_case\<lparr>tc_input := Some ''same'', tc_expected := Some ''same''\<rparr>"

definition failing_case :: test_case where
  "failing_case = empty_case\<lparr>tc_input := Some ''hello'', tc_expected := Some ''goodbye''\<rparr>"

definition eleven_of_twenty :: "test_case list" where
  "eleven_of_twenty = replicate 11 passing_case @ replicate 9 failing_case"

definition untyped_rule :: rule where
  "untyped_rule = empty_rule\<lparr>rule_keywords := Some [''same'']\<rparr>"

definition batch_with_untyped_rule :: "test_case list" where
  "batch_with_untyped_rule =
     [passing_case, passing_case\<lparr>tc_rules := Some [untyped_rule]\<rparr>, passing_case]"

section \<open>Frame of the four checks\<close>

lemma reset_appended [simp]: "reset (appended s t) = reset s"
  by (simp add: reset_def appended_def)

lemma reset_reset [simp]: "reset (reset s) = reset s"
  by (simp add: reset_def)

lemma config_reset [simp]: "config (reset s) = config s"
  by (simp add: reset_def)

lemma config_appended [simp]: "config (appended s t) = config s"
  by (simp add: appended_def)

lemma lists_reset [simp]: "failed (reset s) = []" "warnings (reset s) = []" "passed_checks (reset s) = []"
  by (simp_all add: reset_def)

lemma lists_appended [simp]:
  "failed (appended s t) = failed s @ failed t"
  "warnings (appended s t) = warnings s @ warnings t"
  "passed_checks (appended s t) = passed_checks s @ passed_checks t"
  by (simp_all add: appended_def)

lemma pass_rate_verdict_frame:
  "pass_rate_verdict fmt s x =
     (fst (pass_rate_verdict fmt (reset s) x), appended s (snd (pass_rate_verdict fmt (reset s) x)))"
  by (simp add: pass_rate_verdict_def Let_def appended_def reset_def)

lemma missing_data_frame:
  "missing_data s = (fst (missing_data (reset s)), appended s (snd (missing_data (reset s))))"
  by (simp add: missing_data_def appended_def reset_def)

lemma check_pass_rate_frame:
  "check_pass_rate fmt s res =
     (fst (check_pass_rate fmt (reset s) res), appended s (snd (check_pass_rate fmt (reset s) res)))"
  unfolding check_pass_rate_def
  using pass_rate_verdict_frame [of fmt s] missing_data_frame [of s]
  by (simp add: appended_def reset_def split: option.splits)

lemma critical_step_eq:
  "critical_step r (s, a, n) =
     (if is_critical (config s) r then
        (if \<not> result_passed r then (s\<lparr>failed := failed s @ [critical_failure_message r]\<rparr>, False, n + 1)
         else (s, a, n + 1))
      else (s, a, n))"
  by (simp add: critical_step_def is_critical_def)

lemma fold_critical_step:
  "fold critical_step rs (s, a, n) =
     (s\<lparr>failed := failed s @ map critical_failure_message (critical_failures (config s) rs)\<rparr>,
      a \<and> critical_failures (config s) rs = [],
      n + length (filter (is_critical (config s)) rs))"
proof (induction rs arbitrary: s a n)
  case Nil
  show ?case by (simp add: critical_failures_def)
next
  case (Cons r rs)
  show ?case
    by (simp add: Cons.IH critical_step_eq critical_failures_def)
qed

lemma check_critical_tests_frame:
  "check_critical_tests s res =
     (fst (check_critical_tests (reset s) res), appended s (snd (check_critical_tests (reset s) res)))"
  by (simp add: check_critical_tests_def Let_def fold_critical_step appended_def reset_def)

lemma check_semantic_similarity_frame:
  "check_semantic_similarity fmt s res =
     (fst (check_semantic_similarity fmt (reset s) res),
      appended s (snd (check_semantic_similarity fmt (reset s) res)))"
  by (simp add: check_semantic_similarity_def Let_def appended_def reset_def)

lemma check_hallucination_rate_frame:
  "check_hallucination_rate fmt s res =
     (fst (check_hallucination_rate fmt (reset s) res),
      appended s (snd (check_hallucination_rate fmt (reset s) res)))"
  by (simp add: check_hallucination_rate_def Let_def appended_def reset_def)


lemma check_pass_rate_cases:
  "fst (check_pass_rate fmt s res) = (if zero_total res then Inl ZeroDivisionError
      else Inr (pass_rate_ok fmt s res))"
  by (auto simp add: check_pass_rate_def zero_total_def pass_rate_ok_def pass_rate_verdict_def
        missing_data_def Let_def split: option.splits)

lemma check_pass_rate_failed:
  "failed (snd (check_pass_rate fmt (reset s) res)) = [] \<longleftrightarrow> zero_total res \<or> pass_rate_ok fmt s res"
  by (auto simp add: check_pass_rate_def zero_total_def pass_rate_ok_def pass_rate_verdict_def
        missing_data_def Let_def split: option.splits)

lemma check_pass_rate_failed_length:
  "\<not> zero_total res \<Longrightarrow>
   length (failed (snd (check_pass_rate fmt (reset s) res))) = (if pass_rate_ok fmt s res then 0 else 1)"
  by (auto simp add: check_pass_rate_def zero_total_def pass_rate_ok_def pass_rate_verdict_def
        missing_data_def Let_def split: option.splits)

lemma check_critical_tests_failed:
  "failed (snd (check_critical_tests s res)) =
     failed s @ map critical_failure_message (critical_failures (config s) (get_results res))"
  by (simp add: check_critical_tests_def Let_def fold_critical_step critical_failures_def)

lemma check_critical_tests_result:
  "fst (check_critical_tests s res) = (critical_failures (config s) (get_results res) = [])"
  by (simp add: check_critical_tests_def Let_def fold_critical_step critical_failures_def)

lemma check_semantic_similarity_failed_length:
  "length (failed (snd (check_semantic_similarity fmt (reset s) res))) =
     (if similarity_ok fmt s res then 0 else 1)"
  by (simp add: check_semantic_similarity_def similarity_ok_def Let_def)

lemma check_hallucination_rate_failed_length:
  "length (failed (snd (check_hallucination_rate fmt (reset s) res))) =
     (if hallucination_ok fmt s res then 0 else 1)"
  by (simp add: check_hallucination_rate_def hallucination_ok_def Let_def)

lemma check_pass_rate_finding:
  "\<not> zero_total res \<Longrightarrow>
   length (failed (snd (check_pass_rate fmt (reset s) res))) +
   length (warnings (snd (check_pass_rate fmt (reset s) res))) +
   length (passed_checks (snd (check_pass_rate fmt (reset s) res))) = 1"
  by (auto simp add: check_pass_rate_def zero_total_def pass_rate_verdict_def
        missing_data_def Let_def split: option.splits)

lemma check_critical_tests_finding:
  "1 \<le> length (failed (snd (check_critical_tests (reset s) res))) +
   length (warnings (snd (check_critical_tests (reset s) res))) +
   length (passed_checks (snd (check_critical_tests (reset s) res)))"
  by (auto simp add: check_critical_tests_def Let_def fold_critical_step Suc_le_eq)

lemma check_semantic_similarity_finding:
  "length (failed (snd (check_semantic_similarity fmt (reset s) res))) +
   length (warnings (snd (check_semantic_similarity fmt (reset s) res))) +
   length (passed_checks (snd (check_semantic_similarity fmt (reset s) res))) = 1"
  by (simp add: check_semantic_similarity_def Let_def)

lemma check_hallucination_rate_finding:
  "length (failed (snd (check_hallucination_rate fmt (reset s) res))) +
   length (warnings (snd (check_hallucination_rate fmt (reset s) res))) +
   length (passed_checks (snd (check_hallucination_rate fmt (reset s) res))) = 1"
  by (simp add: check_hallucination_rate_def Let_def)

lemma pass_rate_ok_reset [simp]: "pass_rate_ok fmt (reset s) res = pass_rate_ok fmt s res"
  by (simp add: pass_rate_ok_def)

lemma reset_check_pass_rate: "reset (snd (check_pass_rate fmt s res)) = reset s"
  by (subst check_pass_rate_frame) simp

text \<open>The state and the result of \<open>evaluate\<close>, in terms of the four checks run on their own.\<close>

lemma evaluate_unfold:
  "evaluate fmt self res =
     (if zero_total res then (Inl ZeroDivisionError, reset self)
      else
        (Inr (pass_rate_ok fmt self res \<and> critical_ok self res \<and>
              similarity_ok fmt self res \<and> hallucination_ok fmt self res),
         appended (appended (appended
           (snd (check_pass_rate fmt (reset self) res))
           (snd (check_critical_tests (reset self) res)))
           (snd (check_semantic_similarity fmt (reset self) res)))
           (snd (check_hallucination_rate fmt (reset self) res))))"
proof -
  obtain r1 s1 where c1: "check_pass_rate fmt (reset self) res = (r1, s1)"
    by (cases "check_pass_rate fmt (reset self) res")
  obtain c2 s2 where c2: "check_critical_tests (reset self) res = (c2, s2)"
    by (cases "check_critical_tests (reset self) res")
  obtain c3 s3 where c3: "check_semantic_similarity fmt (reset self) res = (c3, s3)"
    by (cases "check_semantic_similarity fmt (reset self) res")
  obtain c4 s4 where c4: "check_hallucination_rate fmt (reset self) res = (c4, s4)"
    by (cases "check_hallucination_rate fmt (reset self) res")
  have r1: "r1 = (if zero_total res then Inl ZeroDivisionError else Inr (pass_rate_ok fmt self res))"
    using check_pass_rate_cases [of fmt "reset self" res] c1 by simp
  have rs1: "reset s1 = reset self"
    using reset_check_pass_rate [of fmt "reset self" res] c1 by simp
  have e2: "check_critical_tests s1 res = (c2, appended s1 s2)"
    using check_critical_tests_frame [of s1 res] rs1 c2 by simp
  have e3: "check_semantic_similarity fmt (appended s1 s2) res = (c3, appended (appended s1 s2) s3)"
    using check_semantic_similarity_frame [of fmt "appended s1 s2" res] rs1 c3 by simp
  have e4: "check_hallucination_rate fmt (appended (appended s1 s2) s3) res =
              (c4, appended (appended (appended s1 s2) s3) s4)"
    using check_hallucination_rate_frame [of fmt "appended (appended s1 s2) s3" res] rs1 c4 by simp
  show ?thesis
  proof (cases "zero_total res")
    case True
    then have "s1 = reset self"
      using c1 by (auto simp add: check_pass_rate_def zero_total_def split: option.splits)
    then show ?thesis using True c1 r1 by (simp add: evaluate_def)
  next
    case False
    then show ?thesis
      using c1 r1 c2 c3 c4 e2 e3 e4
      by (simp add: evaluate_def critical_ok_def similarity_ok_def hallucination_ok_def)
  qed
qed


lemma failed_evaluate:
  "\<not> zero_total res \<Longrightarrow>
   length (failed (snd (evaluate fmt self res))) = failure_entries fmt self res"
  by (simp add: evaluate_unfold failure_entries_def check_pass_rate_failed_length
        check_critical_tests_failed check_semantic_similarity_failed_length
        check_hallucination_rate_failed_length)

lemma critical_ok_iff: "critical_ok self res \<longleftrightarrow> critical_failures (config self) (get_results res) = []"
  by (simp add: critical_ok_def check_critical_tests_result)

lemma failed_check_count_le: "failed_check_count fmt self res \<le> failure_entries fmt self res"
  by (cases "critical_failures (config self) (get_results res)")
     (simp_all add: failed_check_count_def failure_entries_def critical_ok_iff)

lemma failed_check_count_zero:
  "failed_check_count fmt self res = 0 \<longleftrightarrow> failure_entries fmt self res = 0"
  by (simp add: failed_check_count_def failure_entries_def critical_ok_iff)

lemma failure_entries_le:
  "length (critical_failures (config self) (get_results res)) \<le> 1 \<Longrightarrow>
   failure_entries fmt self res = failed_check_count fmt self res"
  by (cases "critical_failures (config self) (get_results res)")
     (simp_all add: failed_check_count_def failure_entries_def critical_ok_iff)

lemma reset_eq: "reset s = \<lparr>config = config s, failed = [], warnings = [], passed_checks = []\<rparr>"
  by (cases s) (simp add: reset_def)

lemma evaluate_reset: "evaluate fmt (reset s) res = evaluate fmt s res"
  by (simp add: evaluate_def)

lemma reset_evaluate: "reset (snd (evaluate fmt s res)) = reset s"
  by (simp add: evaluate_unfold reset_check_pass_rate)

lemma set_critical_failures:
  "set (critical_failures cfg rs) = {r \<in> set rs. is_critical cfg r \<and> \<not> result_passed r}"
  by (auto simp add: critical_failures_def)

section \<open>The decision (C1)\<close>

text \<open>
  C1, as stated, fails. With the default configuration, a results dictionary whose pass rate
  is 100 and whose three detailed results are tests of the critical category
  \<open>fraud_detection\<close> marked not passed fails exactly one of the four checks (the
  critical-category check), yet \<open>get_decision\<close> answers BLOCKED, not CONDITIONAL: the
  critical-category check records one entry of \<open>failed\<close> per failing test.
\<close>

theorem decision_counterexample:
  "fst (evaluate show_spec (QualityGateChecker_init None) three_critical_failures) = Inr False \<and>
   failed_check_count show_spec (QualityGateChecker_init None) three_critical_failures = 1 \<and>
   get_decision (snd (evaluate show_spec (QualityGateChecker_init None) three_critical_failures)) = BLOCKED"
  by code_simp

text \<open>
  C1, amended. On every results dictionary on which \<open>evaluate\<close> returns (every one but
  those with no \<open>pass_rate\<close>, a \<open>passed\<close> and a \<open>total_tests\<close> of 0), the decision
  after the call is determined by the number of entries of \<open>failed\<close>: one for each of the
  pass-rate, similarity and hallucination checks that failed, and one for each
  critical-category test not marked passed. No entry gives APPROVED, one or two give
  CONDITIONAL, three or more give BLOCKED. So no failed check gives APPROVED, three or four
  failed checks give BLOCKED, and one or two failed checks give CONDITIONAL when at most one
  critical test failed.
\<close>

theorem decision_from_failure_entries:
  assumes "\<not> zero_total res"
  shows "(\<exists>ok. fst (evaluate fmt self res) = Inr ok) \<and>
    length (failed (snd (evaluate fmt self res))) = failure_entries fmt self res \<and>
    get_decision (snd (evaluate fmt self res)) =
      (if failure_entries fmt self res = 0 then APPROVED
       else if failure_entries fmt self res \<le> 2 then CONDITIONAL
       else BLOCKED) \<and>
    (failed_check_count fmt self res = 0 \<longrightarrow>
       get_decision (snd (evaluate fmt self res)) = APPROVED) \<and>
    (3 \<le> failed_check_count fmt self res \<longrightarrow>
       get_decision (snd (evaluate fmt self res)) = BLOCKED) \<and>
    (failed_check_count fmt self res \<in> {1, 2} \<and>
     length (critical_failures (config self) (get_results res)) \<le> 1 \<longrightarrow>
       get_decision (snd (evaluate fmt self res)) = CONDITIONAL)"
proof -
  let ?s = "snd (evaluate fmt self res)"
  let ?n = "failure_entries fmt self res"
  have ret: "\<exists>ok. fst (evaluate fmt self res) = Inr ok"
    using assms by (simp add: evaluate_unfold)
  have len: "length (failed ?s) = ?n"
    using assms by (rule failed_evaluate)
  have dec: "get_decision ?s = (if ?n = 0 then APPROVED else if ?n \<le> 2 then CONDITIONAL else BLOCKED)"
    unfolding get_decision_def using len by (cases "failed ?s") auto
  have zero: "failed_check_count fmt self res = 0 \<longrightarrow> get_decision ?s = APPROVED"
    using dec failed_check_count_zero [of fmt self res] by simp
  have many: "3 \<le> failed_check_count fmt self res \<longrightarrow> get_decision ?s = BLOCKED"
    using dec failed_check_count_le [of fmt self res] by auto
  have few: "failed_check_count fmt self res \<in> {1, 2} \<and>
      length (critical_failures (config self) (get_results res)) \<le> 1 \<longrightarrow>
      get_decision ?s = CONDITIONAL"
    using dec failure_entries_le [of self res fmt] by auto
  show ?thesis using ret len dec zero many few by blast
qed

text \<open>
  Witness for C1: dictionaries with 0, 1, 2, 3 and 4 failed checks, and the dictionary of
  the counterexample.
\<close>

theorem decision_from_failure_entries_witness:
  "get_decision (snd (evaluate show_spec (QualityGateChecker_init None) (gate_example 100 True (9/10) False))) = APPROVED \<and>
   get_decision (snd (evaluate show_spec (QualityGateChecker_init None) (gate_example 50 True (9/10) False))) = CONDITIONAL \<and>
   get_decision (snd (evaluate show_spec (QualityGateChecker_init None) (gate_example 50 False (9/10) False))) = CONDITIONAL \<and>
   get_decision (snd (evaluate show_spec (QualityGateChecker_init None) (gate_example 50 False (1/10) False))) = BLOCKED \<and>
   get_decision (snd (evaluate show_spec (QualityGateChecker_init None) (gate_example 50 False (1/10) True))) = BLOCKED \<and>
   get_decision (snd (evaluate show_spec (QualityGateChecker_init None) three_critical_failures)) = BLOCKED"
proof -
  let ?c = "QualityGateChecker_init None"
  have h: "\<not> zero_total (gate_example r ok sim fl)" for r ok sim fl
    by (simp add: zero_total_def gate_example_def empty_results_def)
  have h3: "\<not> zero_total three_critical_failures" by code_simp
  have n0: "failed_check_count show_spec ?c (gate_example 100 True (9/10) False) = 0" by code_simp
  have n1: "failed_check_count show_spec ?c (gate_example 50 True (9/10) False) \<in> {1, 2} \<and>
            length (critical_failures (config ?c) (get_results (gate_example 50 True (9/10) False))) \<le> 1"
    by code_simp
  have n2: "failed_check_count show_spec ?c (gate_example 50 False (9/10) False) \<in> {1, 2} \<and>
            length (critical_failures (config ?c) (get_results (gate_example 50 False (9/10) False))) \<le> 1"
    by code_simp
  have n3: "3 \<le> failed_check_count show_spec ?c (gate_example 50 False (1/10) False)" by code_simp
  have n4: "3 \<le> failed_check_count show_spec ?c (gate_example 50 False (1/10) True)" by code_simp
  have n5: "failure_entries show_spec ?c three_critical_failures = 3" by code_simp
  have d0: "get_decision (snd (evaluate show_spec ?c (gate_example 100 True (9/10) False))) = APPROVED"
    using decision_from_failure_entries [OF h, of show_spec ?c 100 True "9/10" False] n0 by blast
  have d1: "get_decision (snd (evaluate show_spec ?c (gate_example 50 True (9/10) False))) = CONDITIONAL"
    using decision_from_failure_entries [OF h, of show_spec ?c 50 True "9/10" False] n1 by blast
  have d2: "get_decision (snd (evaluate show_spec ?c (gate_example 50 False (9/10) False))) = CONDITIONAL"
    using decision_from_failure_entries [OF h, of show_spec ?c 50 False "9/10" False] n2 by blast
  have d3: "get_decision (snd (evaluate show_spec ?c (gate_example 50 False (1/10) False))) = BLOCKED"
    using decision_from_failure_entries [OF h, of show_spec ?c 50 False "1/10" False] n3 by blast
  have d4: "get_decision (snd (evaluate show_spec ?c (gate_example 50 False (1/10) True))) = BLOCKED"
    using decision_from_failure_entries [OF h, of show_spec ?c 50 False "1/10" True] n4 by blast
  have d5: "get_decision (snd (evaluate show_spec ?c three_critical_failures)) = BLOCKED"
    using decision_from_failure_entries [OF h3, of show_spec ?c] n5 by simp
  show ?thesis using d0 d1 d2 d3 d4 d5 by blast
qed

section \<open>The hallucination count (C2)\<close>

text \<open>
  What the loop counts: a test adds one when its hallucination metric is truthy, and one
  more when one of its rule entries is flagged.
\<close>

lemma scan_rules_eq:
  "scan_rules rules n = n + (if list_ex rule_flagged rules then 1 else 0)"
  by (induction rules) simp_all

lemma hallucination_step_eq:
  "hallucination_step r n =
     n + (if metric_flagged r then 1 else 0) + (if rules_flagged r then 1 else 0)"
  by (simp add: hallucination_step_def rules_flagged_def scan_rules_eq Let_def split: option.splits)

lemma fold_hallucination_step:
  "fold hallucination_step rs n =
     n + length (filter metric_flagged rs) + length (filter rules_flagged rs)"
  by (induction rs arbitrary: n) (simp_all add: hallucination_step_eq)

lemma count_hallucinations_eq:
  "count_hallucinations rs = length (filter metric_flagged rs) + length (filter rules_flagged rs)"
  by (simp add: count_hallucinations_def fold_hallucination_step)

text \<open>
  C2 at a failing input: of two detailed results, the first has a truthy hallucination
  metric and a rule entry \<open>{'rule': 'No hallucination', 'passed': False}\<close>, the second is
  empty. One test qualifies, so the claim counts 1 and the rate 1/2 meets a
  \<open>max_hallucination_rate\<close> of 1/2; the code counts 2 and the check fails.
\<close>

theorem hallucination_counted_twice:
  "qualifies flagged_twice \<and> \<not> qualifies empty_test \<and>
   count_hallucinations [flagged_twice, empty_test] = 2 \<and>
   length (filter qualifies [flagged_twice, empty_test]) = 1 \<and>
   fst (check_hallucination_rate show_spec (QualityGateChecker_init (Some half_config))
          one_of_two_flagged) = False"
  by code_simp

section \<open>All four checks run (C3)\<close>

text \<open>
  C3, as stated, fails: with five critical tests not marked passed, \<open>failed\<close> has five
  entries after \<open>evaluate\<close>.
\<close>

theorem evaluate_counterexample:
  "fst (evaluate show_spec (QualityGateChecker_init None) five_critical_failures) = Inr False \<and>
   length (failed (snd (evaluate show_spec (QualityGateChecker_init None) five_critical_failures))) = 5"
  by code_simp

text \<open>
  C3, amended. On every results dictionary on which \<open>evaluate\<close> returns, the result is
  the conjunction of the results of the four checks, the three lists hold the findings of
  the four checks in order whether or not an earlier check failed, every check has left a
  finding, and \<open>failed\<close> has at most 3 entries more than there are critical tests not
  marked passed.
\<close>

theorem evaluate_runs_every_check:
  assumes "\<not> zero_total res"
  shows "fst (evaluate fmt self res) =
           Inr (pass_rate_ok fmt self res \<and> critical_ok self res \<and>
                similarity_ok fmt self res \<and> hallucination_ok fmt self res) \<and>
    failed (snd (evaluate fmt self res)) =
      failed (snd (check_pass_rate fmt (reset self) res)) @
      failed (snd (check_critical_tests (reset self) res)) @
      failed (snd (check_semantic_similarity fmt (reset self) res)) @
      failed (snd (check_hallucination_rate fmt (reset self) res)) \<and>
    warnings (snd (evaluate fmt self res)) =
      warnings (snd (check_pass_rate fmt (reset self) res)) @
      warnings (snd (check_critical_tests (reset self) res)) @
      warnings (snd (check_semantic_similarity fmt (reset self) res)) @
      warnings (snd (check_hallucination_rate fmt (reset self) res)) \<and>
    passed_checks (snd (evaluate fmt self res)) =
      passed_checks (snd (check_pass_rate fmt (reset self) res)) @
      passed_checks (snd (check_critical_tests (reset self) res)) @
      passed_checks (snd (check_semantic_similarity fmt (reset self) res)) @
      passed_checks (snd (check_hallucination_rate fmt (reset self) res)) \<and>
    4 \<le> length (failed (snd (evaluate fmt self res))) +
         length (warnings (snd (evaluate fmt self res))) +
         length (passed_checks (snd (evaluate fmt self res))) \<and>
    length (failed (snd (evaluate fmt self res))) \<le>
      3 + length (critical_failures (config self) (get_results res))"
proof -
  have a: "length (failed (snd (evaluate fmt self res))) = failure_entries fmt self res"
    using assms by (rule failed_evaluate)
  have b: "failure_entries fmt self res \<le> 3 + length (critical_failures (config self) (get_results res))"
    by (simp add: failure_entries_def)
  have c: "4 \<le> length (failed (snd (evaluate fmt self res))) +
         length (warnings (snd (evaluate fmt self res))) +
         length (passed_checks (snd (evaluate fmt self res)))"
    using assms check_pass_rate_finding [OF assms, of fmt self]
      check_critical_tests_finding [of self res]
      check_semantic_similarity_finding [of fmt self res]
      check_hallucination_rate_finding [of fmt self res]
    by (simp add: evaluate_unfold)
  show ?thesis using assms a b c by (simp add: evaluate_unfold)
qed

text \<open>
  Witness for C3: a dictionary on which the pass-rate check, the first, fails, and so do the
  other three.
\<close>

theorem evaluate_runs_every_check_witness:
  "fst (evaluate show_spec (QualityGateChecker_init None) (gate_example 50 False (1/10) True)) =
     Inr False \<and>
   length (failed (snd (evaluate show_spec (QualityGateChecker_init None)
     (gate_example 50 False (1/10) True)))) = 4"
proof -
  let ?c = "QualityGateChecker_init None"
  let ?r = "gate_example 50 False (1/10) True"
  have h: "\<not> zero_total ?r" by code_simp
  have p: "\<not> pass_rate_ok show_spec ?c ?r" by code_simp
  have f1: "length (failed (snd (check_pass_rate show_spec (reset ?c) ?r))) = 1" by code_simp
  have f2: "length (failed (snd (check_critical_tests (reset ?c) ?r))) = 1" by code_simp
  have f3: "length (failed (snd (check_semantic_similarity show_spec (reset ?c) ?r))) = 1"
    by code_simp
  have f4: "length (failed (snd (check_hallucination_rate show_spec (reset ?c) ?r))) = 1"
    by code_simp
  note E = evaluate_runs_every_check [OF h, of show_spec ?c]
  have a: "fst (evaluate show_spec ?c ?r) = Inr False"
    using E [THEN conjunct1] p by simp
  have b: "length (failed (snd (evaluate show_spec ?c ?r))) = 4"
    using E [THEN conjunct2, THEN conjunct1] f1 f2 f3 f4 by simp
  show ?thesis using a b by (intro conjI)
qed

section \<open>The critical-category check (C4)\<close>

text \<open>
  C4. If a detailed result whose category (\<open>unknown\<close> when it has none) is in
  \<open>critical_categories\<close> is not marked passed (its \<open>passed\<close> field is false, or it has no
  \<open>passed\<close> field and its \<open>correct\<close> field is false or absent), the check returns false and
  \<open>failed\<close> holds an entry naming the test's id and category. If there are detailed
  results and none is of a critical category, the check returns true, warns that no critical
  tests were found and adds nothing to \<open>failed\<close>.
\<close>

theorem critical_check_records_failures:
  "(result \<in> set (get_results res) \<and>
    result_category result \<in> set (critical_categories (config self)) \<and>
    (t_passed result = Some False \<or>
     t_passed result = None \<and> (t_correct result = Some False \<or> t_correct result = None))
    \<longrightarrow>
      fst (check_critical_tests self res) = False \<and>
      (''Critical test failed: '' @ result_test_id result @
       '' (category: '' @ result_category result @ '')'')
        \<in> set (failed (snd (check_critical_tests self res)))) \<and>
   (get_results res \<noteq> [] \<and>
    (\<forall>result \<in> set (get_results res).
       result_category result \<notin> set (critical_categories (config self)))
    \<longrightarrow>
      fst (check_critical_tests self res) = True \<and>
      ''No critical tests found'' \<in> set (warnings (snd (check_critical_tests self res))) \<and>
      failed (snd (check_critical_tests self res)) = failed self)"
proof (intro conjI impI)
  assume a: "result \<in> set (get_results res) \<and>
    result_category result \<in> set (critical_categories (config self)) \<and>
    (t_passed result = Some False \<or>
     t_passed result = None \<and> (t_correct result = Some False \<or> t_correct result = None))"
  then have np: "\<not> result_passed result"
    by (auto simp add: result_passed_def)
  have mem: "result \<in> set (critical_failures (config self) (get_results res))"
    using a np by (simp add: set_critical_failures is_critical_def)
  then have ne: "critical_failures (config self) (get_results res) \<noteq> []"
    by auto
  show "fst (check_critical_tests self res) = False"
    using ne by (simp add: check_critical_tests_result)
  have "critical_failure_message result \<in> set (failed (snd (check_critical_tests self res)))"
    using mem by (simp add: check_critical_tests_failed)
  then show "(''Critical test failed: '' @ result_test_id result @
       '' (category: '' @ result_category result @ '')'')
        \<in> set (failed (snd (check_critical_tests self res)))"
    by (simp add: critical_failure_message_def)
next
  assume b: "get_results res \<noteq> [] \<and>
    (\<forall>result \<in> set (get_results res).
       result_category result \<notin> set (critical_categories (config self)))"
  then have none: "filter (is_critical (config self)) (get_results res) = []"
    by (simp add: is_critical_def filter_empty_conv)
  have nofail: "critical_failures (config self) (get_results res) = []"
    using b by (simp add: critical_failures_def is_critical_def filter_empty_conv)
  show "fst (check_critical_tests self res) = True"
    using nofail by (simp add: check_critical_tests_result)
  show "''No critical tests found'' \<in> set (warnings (snd (check_critical_tests self res)))"
    using b none nofail by (simp add: check_critical_tests_def Let_def fold_critical_step)
  show "failed (snd (check_critical_tests self res)) = failed self"
    using nofail by (simp add: check_critical_tests_failed)
qed

text \<open>
  Witness for C4: one test of category \<open>fraud_detection\<close> marked not passed, and one test
  of a category that is not critical, under the default configuration.
\<close>

theorem critical_check_records_failures_witness:
  "fst (check_critical_tests (QualityGateChecker_init None) fraud_failure) = False \<and>
   ''Critical test failed: test_003 (category: fraud_detection)''
     \<in> set (failed (snd (check_critical_tests (QualityGateChecker_init None) fraud_failure))) \<and>
   fst (check_critical_tests (QualityGateChecker_init None) no_critical) = True \<and>
   ''No critical tests found''
     \<in> set (warnings (snd (check_critical_tests (QualityGateChecker_init None) no_critical)))"
proof -
  let ?c = "QualityGateChecker_init None"
  let ?t = "empty_test\<lparr>t_test_id := Some ''test_003'', t_category := Some ''fraud_detection'',
             t_passed := Some False\<rparr>"
  have h1: "?t \<in> set (get_results fraud_failure) \<and>
    result_category ?t \<in> set (critical_categories (config ?c)) \<and>
    (t_passed ?t = Some False \<or>
     t_passed ?t = None \<and> (t_correct ?t = Some False \<or> t_correct ?t = None))"
    by code_simp
  have m: "''Critical test failed: '' @ result_test_id ?t @ '' (category: '' @ result_category ?t @ '')''
        = ''Critical test failed: test_003 (category: fraud_detection)''"
    by code_simp
  have h2: "get_results no_critical \<noteq> [] \<and>
    (\<forall>result \<in> set (get_results no_critical).
       result_category result \<notin> set (critical_categories (config ?c)))"
    by code_simp
  have p1: "fst (check_critical_tests ?c fraud_failure) = False \<and>
      (''Critical test failed: '' @ result_test_id ?t @ '' (category: '' @ result_category ?t @ '')'')
        \<in> set (failed (snd (check_critical_tests ?c fraud_failure)))"
    using critical_check_records_failures [of ?t fraud_failure ?c] h1 by blast
  have p2: "fst (check_critical_tests ?c no_critical) = True \<and>
      ''No critical tests found'' \<in> set (warnings (snd (check_critical_tests ?c no_critical)))"
    using critical_check_records_failures [of ?t no_critical ?c] h2 by blast
  show ?thesis using p1 [unfolded m] p2 by blast
qed

section \<open>The pass-rate check (C5, C6)\<close>

text \<open>
  The order of the sources of the pass rate. When \<open>total_tests\<close> is not 0 the check
  does what C5 says.
\<close>

lemma check_pass_rate_fallback:
  "(r_pass_rate res = Some pr \<longrightarrow>
      fst (check_pass_rate fmt self res) = Inr (pr \<ge> min_pass_rate (config self))) \<and>
   (r_pass_rate res = None \<and> r_passed res = Some p \<and> r_total_tests res = Some t \<and> t \<noteq> 0 \<longrightarrow>
      fst (check_pass_rate fmt self res) = Inr (100 * p / t \<ge> min_pass_rate (config self))) \<and>
   (r_pass_rate res = None \<and> (r_passed res = None \<or> r_total_tests res = None) \<longrightarrow>
      check_pass_rate fmt self res =
        (Inr False, self\<lparr>failed := failed self @ [''Cannot calculate pass rate - missing data'']\<rparr>))"
  by (auto simp add: check_pass_rate_def pass_rate_verdict_def missing_data_def Let_def
        mult.commute split: option.splits)

text \<open>
  C5 at a failing input: on \<open>{'passed': 0, 'total_tests': 0}\<close> both fields are present,
  and the check raises \<open>ZeroDivisionError\<close> instead of returning a verdict.
\<close>

theorem check_pass_rate_zero_total:
  "check_pass_rate fmt self zero_tests = (Inl ZeroDivisionError, self)"
  by (simp add: check_pass_rate_def zero_tests_def empty_results_def)

text \<open>
  C6 at a failing input: on the same dictionary \<open>evaluate\<close> raises, with the three
  lists reset and none of the other checks run.
\<close>

theorem evaluate_zero_total:
  "evaluate fmt self zero_tests = (Inl ZeroDivisionError, reset self)"
  by (simp add: evaluate_unfold zero_total_def zero_tests_def empty_results_def)

section \<open>A second call of evaluate (C7)\<close>

text \<open>
  C7. A call of \<open>evaluate\<close> on a checker that has evaluated another dictionary before
  gives the result and the checker, with its three lists, that the same call gives on a
  fresh checker of the same configuration; it does so too when either call raises.
\<close>

theorem evaluate_again_as_fresh:
  "evaluate fmt (snd (evaluate fmt self res1)) res2 =
     evaluate fmt (QualityGateChecker_init (Some (config self))) res2 \<and>
   evaluate fmt (snd (evaluate fmt (QualityGateChecker_init cfg) res1)) res2 =
     evaluate fmt (QualityGateChecker_init cfg) res2"
proof -
  have fresh: "reset (QualityGateChecker_init (Some (config s))) = reset s" for s
    by (simp add: reset_eq QualityGateChecker_init_def)
  have again: "evaluate fmt (snd (evaluate fmt s res1)) res2 = evaluate fmt (reset s) res2" for s
    using evaluate_reset [of fmt "snd (evaluate fmt s res1)" res2]
    by (simp add: reset_evaluate)
  have a: "evaluate fmt (snd (evaluate fmt self res1)) res2 =
     evaluate fmt (QualityGateChecker_init (Some (config self))) res2"
    using again [of self] evaluate_reset [of fmt "QualityGateChecker_init (Some (config self))" res2]
    by (simp add: fresh)
  have b: "evaluate fmt (snd (evaluate fmt (QualityGateChecker_init cfg) res1)) res2 =
     evaluate fmt (QualityGateChecker_init cfg) res2"
    using again [of "QualityGateChecker_init cfg"] by (simp add: evaluate_reset)
  show ?thesis using a b by (intro conjI)
qed

text \<open>
  Witness for C7: after a dictionary with five critical failures, a dictionary that passes
  every check leaves \<open>failed\<close> empty.
\<close>

theorem evaluate_again_as_fresh_witness:
  "failed (snd (evaluate show_spec
      (snd (evaluate show_spec (QualityGateChecker_init None) five_critical_failures))
      (gate_example 100 True (9/10) False))) = []"
proof -
  have f: "failed (snd (evaluate show_spec (QualityGateChecker_init None)
      (gate_example 100 True (9/10) False))) = []"
    by code_simp
  show ?thesis
    using evaluate_again_as_fresh [THEN conjunct2, of show_spec None five_critical_failures
        "gate_example 100 True (9/10) False"] f
    by simp
qed

section \<open>The summary of evaluate_all (C8)\<close>

subsection \<open>The error of rounding to a double\<close>

lemma round_half_even_error: "\<bar>of_int (round_half_even x) - x\<bar> \<le> 1 / 2"
proof -
  have lo: "of_int \<lfloor>x\<rfloor> \<le> x" and hi: "x < of_int \<lfloor>x\<rfloor> + 1"
    by linarith+
  show ?thesis
    unfolding round_half_even_def Let_def using lo hi by (auto simp add: abs_le_iff)
qed

lemma quotient_of_pos:
  assumes "0 < x" "quotient_of x = (a, b)"
  shows "0 < a" "0 < b" "x = of_int a / of_int b"
proof -
  show b: "0 < b" using assms(2) by (rule quotient_of_denom_pos)
  show x: "x = of_int a / of_int b" using assms(2) by (simp add: quotient_of_div)
  show "0 < a" using assms(1) b x by (simp add: zero_less_divide_iff)
qed

lemma bitlen_powi:
  assumes "0 < (a::int)"
  shows "(2::rat) powi (bitlen a - 1) \<le> of_int a" "of_int a < (2::rat) powi bitlen a"
proof -
  have b: "2 ^ nat (bitlen a - 1) \<le> a" "a < 2 ^ nat (bitlen a)"
    using bitlen_bounds [OF assms] by auto
  have pos: "1 \<le> bitlen a" using assms by (simp add: bitlen_def floorlog_def)
  have "(of_int (2 ^ nat (bitlen a - 1)) :: rat) \<le> of_int a" using b(1) by (simp only: of_int_le_iff)
  then show "(2::rat) powi (bitlen a - 1) \<le> of_int a" using pos by (simp add: power_int_def)
  have "(of_int a :: rat) < of_int (2 ^ nat (bitlen a))" using b(2) by (simp only: of_int_less_iff)
  then show "of_int a < (2::rat) powi bitlen a" using pos by (simp add: power_int_def)
qed

lemma ilog2_bounds:
  assumes "0 < x"
  shows "2 powi ilog2 x \<le> x" "x < 2 powi (ilog2 x + 1)"
proof -
  obtain a b where q: "quotient_of x = (a, b)" by (cases "quotient_of x")
  note ab = quotient_of_pos [OF assms q]
  let ?k = "bitlen a - bitlen b"
  have a1: "(2::rat) powi (bitlen a - 1) \<le> of_int a" and a2: "of_int a < (2::rat) powi bitlen a"
    using bitlen_powi [OF ab(1)] by auto
  have b1: "(2::rat) powi (bitlen b - 1) \<le> of_int b" and b2: "of_int b < (2::rat) powi bitlen b"
    using bitlen_powi [OF ab(2)] by auto
  have bpos: "(0::rat) < of_int b" using ab(2) by simp
  have lower: "(2::rat) powi (?k - 1) \<le> x"
  proof -
    have "?k - 1 = (bitlen a - 1) - bitlen b" by simp
    then have "(2::rat) powi (?k - 1) = 2 powi ((bitlen a - 1) - bitlen b)" by (simp only:)
    also have "\<dots> = 2 powi (bitlen a - 1) / 2 powi bitlen b"
      by (rule power_int_diff) simp
    also have "\<dots> \<le> of_int a / 2 powi bitlen b"
      using a1 by (simp add: divide_right_mono)
    also have "\<dots> \<le> of_int a / of_int b"
      using b2 bpos ab(1) by (simp add: frac_le)
    finally show ?thesis using ab(3) by simp
  qed
  have upper: "x < (2::rat) powi (?k + 1)"
  proof -
    have p: "(0::rat) < 2 powi (bitlen b - 1)" by simp
    have "x = of_int a / of_int b" by (rule ab(3))
    also have "\<dots> \<le> of_int a / 2 powi (bitlen b - 1)"
      using b1 p ab(1) by (simp add: frac_le)
    also have "\<dots> < 2 powi bitlen a / 2 powi (bitlen b - 1)"
      using a2 p by (simp add: divide_strict_right_mono)
    also have "\<dots> = 2 powi (bitlen a - (bitlen b - 1))"
      by (rule power_int_diff [symmetric]) simp
    also have "bitlen a - (bitlen b - 1) = ?k + 1" by simp
    finally show ?thesis .
  qed
  have two: "(2::rat) powi (?k - 1 + 1) = 2 powi ?k" by simp
  show "2 powi ilog2 x \<le> x"
    using lower by (simp add: ilog2_def q Let_def)
  show "x < 2 powi (ilog2 x + 1)"
    using upper by (auto simp add: ilog2_def q Let_def not_le)
qed

lemma to_double_error: "\<bar>to_double x - x\<bar> \<le> \<bar>x\<bar> / 2 ^ 53"
proof (cases "x = 0")
  case True
  then show ?thesis by (simp add: to_double_def)
next
  case False
  define e where "e = ilog2 \<bar>x\<bar> - 52"
  define y where "y = \<bar>x\<bar> / 2 powi e"
  define m where "m = round_half_even y"
  have xpos: "0 < \<bar>x\<bar>" using False by simp
  have p: "(0::rat) < 2 powi e" by simp
  have "2 powi (e + 52) \<le> \<bar>x\<bar>" using ilog2_bounds(1) [OF xpos] by (simp add: e_def)
  then have "2 powi e * 2 ^ 52 \<le> \<bar>x\<bar>" by (simp add: power_int_add)
  then have ylow: "2 ^ 52 \<le> y" using p by (simp add: y_def pos_le_divide_eq mult.commute)
  have err: "\<bar>of_int m - y\<bar> \<le> 1 / 2" unfolding m_def by (rule round_half_even_error)
  have half: "(1::rat) / 2 \<le> y / 2 ^ 53" using ylow by simp
  have td: "to_double x = sgn x * of_int m * 2 powi e"
    using False by (simp add: to_double_def Let_def e_def y_def m_def)
  have xx: "x = sgn x * y * 2 powi e"
    using False by (simp add: y_def sgn_mult_abs)
  have "to_double x - x = sgn x * (of_int m - y) * 2 powi e"
    by (subst td, subst (2) xx) (simp add: algebra_simps)
  then have "\<bar>to_double x - x\<bar> = \<bar>of_int m - y\<bar> * 2 powi e"
    using False by (simp add: abs_mult abs_sgn_eq)
  also have "\<dots> \<le> (y / 2 ^ 53) * 2 powi e"
    using err half p by (simp add: mult_right_mono)
  also have "\<dots> = \<bar>x\<bar> / 2 ^ 53" by (simp add: y_def)
  finally show ?thesis .
qed

lemma double_rate_error:
  "\<bar>double_mul (double_div p t) 100 - 100 * (p / t)\<bar> \<le> 100 * \<bar>p / t\<bar> / 2 ^ 51"
proof -
  define x where "x = p / t"
  define d where "d = to_double x"
  define r where "r = to_double (d * 100)"
  define u :: rat where "u = 1 / 2 ^ 53"
  have u: "0 \<le> u" "u \<le> 1" "2 * u + u * u \<le> 4 * u" by (simp_all add: u_def)
  have e1: "\<bar>d - x\<bar> \<le> \<bar>x\<bar> * u"
    using to_double_error [of x] by (simp add: d_def u_def)
  have e2: "\<bar>r - d * 100\<bar> \<le> 100 * \<bar>d\<bar> * u"
    using to_double_error [of "d * 100"] by (simp add: r_def u_def abs_mult)
  have dx: "\<bar>d\<bar> \<le> \<bar>x\<bar> + \<bar>x\<bar> * u" using e1 by linarith
  have eq: "r - 100 * x = (r - d * 100) + 100 * (d - x)" by simp
  have am: "\<bar>100 * (d - x)\<bar> = 100 * \<bar>d - x\<bar>" by (subst abs_mult) simp
  have "\<bar>r - 100 * x\<bar> \<le> \<bar>r - d * 100\<bar> + 100 * \<bar>d - x\<bar>"
    unfolding eq am [symmetric] by (rule abs_triangle_ineq)
  also have "\<dots> \<le> 100 * \<bar>d\<bar> * u + 100 * (\<bar>x\<bar> * u)"
    using e1 e2 by (intro add_mono mult_left_mono) simp_all
  also have "\<dots> \<le> 100 * (\<bar>x\<bar> + \<bar>x\<bar> * u) * u + 100 * (\<bar>x\<bar> * u)"
    using dx u(1) by (simp add: mult_right_mono)
  also have "\<dots> = 100 * \<bar>x\<bar> * (2 * u + u * u)" by (simp add: algebra_simps)
  also have "\<dots> \<le> 100 * \<bar>x\<bar> * (4 * u)"
    using u(3) by (intro mult_left_mono) simp_all
  also have "\<dots> = 100 * \<bar>x\<bar> / 2 ^ 51" by (simp add: u_def)
  finally show ?thesis by (simp add: r_def d_def x_def double_mul_def double_div_def)
qed

subsection \<open>The loop and the summary\<close>

lemma evaluate_loop_inv:
  "evaluate_loop self tcs (rs, n) = Inr (rs', n') \<Longrightarrow>
   \<exists>new. rs' = rs @ new \<and> length new = length tcs \<and>
         n' = n + int (length (filter (\<lambda>r. t_passed r = Some True) new))"
proof (induction tcs arbitrary: rs n)
  case Nil
  then show ?case by simp
next
  case (Cons tc tcs)
  from Cons.prems obtain result p where
    single: "evaluate_single self tc = Inr result" and
    p: "t_passed result = Some p" and
    rest: "evaluate_loop self tcs (rs @ [result], if p then n + 1 else n) = Inr (rs', n')"
    by (auto split: sum.splits option.splits)
  from Cons.IH [OF rest] obtain new where
    new: "rs' = (rs @ [result]) @ new" "length new = length tcs"
      "n' = (if p then n + 1 else n) + int (length (filter (\<lambda>r. t_passed r = Some True) new))"
    by blast
  have "rs' = rs @ (result # new)" using new(1) by simp
  moreover have "length (result # new) = length (tc # tcs)" using new(2) by simp
  moreover have "n' = n + int (length (filter (\<lambda>r. t_passed r = Some True) (result # new)))"
    using new(3) p by simp
  ultimately show ?case by blast
qed

lemma evaluate_single_passed:
  "evaluate_single self tc = Inr result \<Longrightarrow> t_passed result \<noteq> None"
  by (auto simp add: evaluate_single_def Let_def split: sum.splits)

lemma evaluate_loop_total:
  "\<forall>tc \<in> set tcs. \<exists>r. evaluate_single self tc = Inr r \<Longrightarrow>
   \<exists>out. evaluate_loop self tcs acc = Inr out"
proof (induction tcs arbitrary: acc)
  case Nil
  then show ?case by simp
next
  case (Cons tc tcs)
  obtain rs n where acc: "acc = (rs, n)" by (cases acc)
  from Cons.prems obtain r where r: "evaluate_single self tc = Inr r" by auto
  then obtain p where p: "t_passed r = Some p"
    using evaluate_single_passed [OF r] by auto
  from Cons.prems have "\<forall>tc \<in> set tcs. \<exists>r. evaluate_single self tc = Inr r" by simp
  from Cons.IH [OF this] show ?case using acc r p by simp
qed

text \<open>
  C8, as stated, fails. Of twenty test cases eleven pass; the pass rate of the summary is
  the double \<open>55.00000000000001\<close>, which is \<open>55 + 2 ^ -47\<close>, not
  \<open>100 * 11 / 20 = 55\<close>: the quotient \<open>11 / 20\<close> is rounded to a double before it is
  multiplied by 100.
\<close>

theorem evaluate_all_rate_counterexample:
  "\<not> isl (evaluate_all echo_evaluator ''2026'' eleven_of_twenty) \<and>
   r_passed (projr (evaluate_all echo_evaluator ''2026'' eleven_of_twenty)) = Some 11 \<and>
   r_total_tests (projr (evaluate_all echo_evaluator ''2026'' eleven_of_twenty)) = Some 20 \<and>
   r_pass_rate (projr (evaluate_all echo_evaluator ''2026'' eleven_of_twenty)) =
     Some (55 + 1 / 2 ^ 47) \<and>
   r_pass_rate (projr (evaluate_all echo_evaluator ''2026'' eleven_of_twenty)) \<noteq>
     Some (100 * 11 / 20)"
  by code_simp

text \<open>
  C8, amended. A summary that \<open>evaluate_all\<close> returns has a passed and a failed count
  that add up to the total, which is the length of the results list and of the list of test
  cases; the passed count is the number of results marked passed. The pass rate is 0 when
  the total is 0, and otherwise the product \<open>(passed / total) * 100\<close> in double precision:
  the quotient rounded to a double, times 100, rounded to a double. It is within a relative
  error of \<open>2 ^ -51\<close> of \<open>100 * passed / total\<close>. \<open>evaluate_all\<close> returns a summary
  whenever \<open>evaluate_single\<close> returns on every test case, and on the empty list it returns
  the summary of zeros without a call to either collaborator.
\<close>

theorem evaluate_all_summary:
  "(evaluate_all self now test_cases = Inr summary \<longrightarrow>
      (\<exists>p f t rs rate.
         r_passed summary = Some p \<and> r_failed summary = Some f \<and>
         r_total_tests summary = Some t \<and> r_results summary = Some rs \<and>
         r_pass_rate summary = Some rate \<and>
         p + f = t \<and> t = of_nat (length rs) \<and> length rs = length test_cases \<and>
         p = of_nat (length (passed_results rs)) \<and>
         rate = (if t = 0 then 0 else double_mul (double_div p t) 100) \<and>
         \<bar>rate - 100 * p / t\<bar> \<le> (100 * p / t) / 2 ^ 51)) \<and>
   ((\<forall>tc \<in> set test_cases. \<exists>r. evaluate_single self tc = Inr r) \<longrightarrow>
      (\<exists>summary. evaluate_all self now test_cases = Inr summary)) \<and>
   evaluate_all self now [] =
     Inr \<lparr>r_pass_rate = Some 0, r_passed = Some 0, r_failed = Some 0, r_total_tests = Some 0,
          r_results = Some [], r_model_used = Some (model self), r_timestamp = Some now,
          r_evaluation_type = Some ''static''\<rparr>"
proof (intro conjI impI)
  assume a: "evaluate_all self now test_cases = Inr summary"
  then obtain rs n where loop: "evaluate_loop self test_cases ([], 0) = Inr (rs, n)"
    by (auto simp add: evaluate_all_def split: sum.splits)
  from evaluate_loop_inv [OF loop] have
    len: "length rs = length test_cases" and
    n: "n = int (length (passed_results rs))"
    by (auto simp add: passed_results_def)
  define p :: rat where "p = of_int n"
  define t :: rat where "t = of_nat (length test_cases)"
  define rate where "rate = (if t = 0 then 0 else double_mul (double_div p t) 100)"
  have s: "summary = \<lparr>r_pass_rate = Some rate,
             r_passed = Some p,
             r_failed = Some (of_int (int (length test_cases) - n)),
             r_total_tests = Some t,
             r_results = Some rs, r_model_used = Some (model self),
             r_timestamp = Some now, r_evaluation_type = Some ''static''\<rparr>"
    using a loop by (auto simp add: evaluate_all_def Let_def p_def t_def rate_def)
  have p0: "0 \<le> p" using n by (simp add: p_def)
  have t0: "0 \<le> t" by (simp add: t_def)
  have q0: "0 \<le> p / t" using p0 t0 by simp
  have bound: "\<bar>rate - 100 * p / t\<bar> \<le> (100 * p / t) / 2 ^ 51"
  proof (cases "t = 0")
    case True
    then show ?thesis by (simp add: rate_def)
  next
    case False
    have "\<bar>double_mul (double_div p t) 100 - 100 * (p / t)\<bar> \<le> 100 * \<bar>p / t\<bar> / 2 ^ 51"
      by (rule double_rate_error)
    then show ?thesis using False q0 by (simp add: rate_def)
  qed
  have sum: "p + of_int (int (length test_cases) - n) = t" by (simp add: p_def t_def)
  have "r_passed summary = Some p \<and> r_failed summary = Some (of_int (int (length test_cases) - n)) \<and>
         r_total_tests summary = Some t \<and> r_results summary = Some rs \<and>
         r_pass_rate summary = Some rate \<and>
         p + of_int (int (length test_cases) - n) = t \<and> t = of_nat (length rs) \<and>
         length rs = length test_cases \<and>
         p = of_nat (length (passed_results rs)) \<and>
         rate = (if t = 0 then 0 else double_mul (double_div p t) 100) \<and>
         \<bar>rate - 100 * p / t\<bar> \<le> (100 * p / t) / 2 ^ 51"
    using len n sum bound by (simp add: s t_def p_def rate_def)
  then show "\<exists>p f t rs rate.
         r_passed summary = Some p \<and> r_failed summary = Some f \<and>
         r_total_tests summary = Some t \<and> r_results summary = Some rs \<and>
         r_pass_rate summary = Some rate \<and>
         p + f = t \<and> t = of_nat (length rs) \<and> length rs = length test_cases \<and>
         p = of_nat (length (passed_results rs)) \<and>
         rate = (if t = 0 then 0 else double_mul (double_div p t) 100) \<and>
         \<bar>rate - 100 * p / t\<bar> \<le> (100 * p / t) / 2 ^ 51"
    by blast
next
  assume "\<forall>tc \<in> set test_cases. \<exists>r. evaluate_single self tc = Inr r"
  from evaluate_loop_total [OF this, of "([], 0)"]
  show "\<exists>summary. evaluate_all self now test_cases = Inr summary"
    by (auto simp add: evaluate_all_def Let_def)
next
  show "evaluate_all self now [] =
     Inr \<lparr>r_pass_rate = Some 0, r_passed = Some 0, r_failed = Some 0, r_total_tests = Some 0,
          r_results = Some [], r_model_used = Some (model self), r_timestamp = Some now,
          r_evaluation_type = Some ''static''\<rparr>"
    by (simp add: evaluate_all_def)
qed

text \<open>
  Witness for C8: two test cases under an evaluator that echoes the prompt and scores equal
  texts 1 and different texts 0; the first case passes, the second fails, and the rate is
  the double 50.
\<close>

theorem evaluate_all_summary_witness:
  "\<exists>summary. evaluate_all echo_evaluator ''2026'' two_cases = Inr summary \<and>
     r_passed summary = Some 1 \<and> r_failed summary = Some 1 \<and> r_total_tests summary = Some 2 \<and>
     r_pass_rate summary = Some 50 \<and>
     (\<exists>rs. r_results summary = Some rs \<and> length rs = 2)"
proof -
  have h: "\<forall>tc \<in> set two_cases. \<exists>r. evaluate_single echo_evaluator tc = Inr r"
    by (simp add: two_cases_def evaluate_single_def echo_evaluator_def empty_case_def
          empty_rule_def get_str_def validate_rules_def Let_def)
  note T = evaluate_all_summary [of echo_evaluator "''2026''" two_cases]
  from T h obtain summary where s: "evaluate_all echo_evaluator ''2026'' two_cases = Inr summary"
    by blast
  from evaluate_all_summary [of echo_evaluator "''2026''" two_cases summary] s
  obtain p f t rs rate where
    f: "r_passed summary = Some p" "r_failed summary = Some f"
       "r_total_tests summary = Some t" "r_results summary = Some rs"
       "r_pass_rate summary = Some rate"
       "p + f = t" "t = of_nat (length rs)" "length rs = length two_cases"
       "p = of_nat (length (passed_results rs))"
       "rate = (if t = 0 then 0 else double_mul (double_div p t) 100)"
    by blast
  have n: "length two_cases = 2" by code_simp
  have k: "r_passed (projr (evaluate_all echo_evaluator ''2026'' two_cases)) = Some 1" by code_simp
  have d: "double_mul (double_div 1 2) 100 = 50" by code_simp
  have p1: "p = 1" using k s f(1) by simp
  have t2: "t = 2" using f(7,8) n by simp
  have f1: "f = 1" using f(6) p1 t2 by simp
  have r50: "rate = 50" using f(10) p1 t2 d by simp
  show ?thesis using s f p1 t2 f1 r50 n by auto
qed

section \<open>validate_rules (C9)\<close>

lemma validate_loop_eq:
  "\<forall>r \<in> set rules. rule_type r \<noteq> None \<Longrightarrow>
   validate_loop response rules acc =
     Inr (acc @ map (\<lambda>r. rule_result response (the (rule_type r)) r) rules)"
  by (induction rules arbitrary: acc) auto

lemma rule_check_unknown: "rt \<notin> set known_kinds \<Longrightarrow> rule_check response rt r = False"
  by (simp add: rule_check_def known_kinds_def)

lemma o_passed_rule_result: "o_passed (rule_result response rt r) = Some (rule_check response rt r)"
  by (simp add: rule_result_def)

text \<open>
  Where every rule has a \<open>type\<close> key, \<open>validate_rules\<close> does what C9 says: it returns
  one outcome per rule, in the order of the rules, and the outcome of a rule whose type is
  not one of \<open>contains\<close>, \<open>not_contains\<close>, \<open>length\<close> and \<open>format\<close> is marked not
  passed.
\<close>

lemma validate_rules_one_outcome_per_rule:
  assumes "\<forall>r \<in> set rules. rule_type r \<noteq> None"
  shows "\<exists>outs. validate_rules response rules = Inr outs \<and>
           length outs = length rules \<and>
           (\<forall>i < length rules. \<forall>rt. rule_type (rules ! i) = Some rt \<longrightarrow>
              outs ! i = rule_result response rt (rules ! i) \<and>
              (rt \<notin> set known_kinds \<longrightarrow> o_passed (outs ! i) = Some False))"
proof -
  let ?outs = "map (\<lambda>r. rule_result response (the (rule_type r)) r) rules"
  have v: "validate_rules response rules = Inr ?outs"
    using validate_loop_eq [OF assms, of response "[]"] by (simp add: validate_rules_def)
  have n: "length ?outs = length rules" by simp
  have each: "\<forall>i < length rules. \<forall>rt. rule_type (rules ! i) = Some rt \<longrightarrow>
              ?outs ! i = rule_result response rt (rules ! i) \<and>
              (rt \<notin> set known_kinds \<longrightarrow> o_passed (?outs ! i) = Some False)"
    by (auto simp add: o_passed_rule_result rule_check_unknown)
  show ?thesis using v n each by blast
qed

text \<open>
  A \<open>contains\<close> rule that passes, a rule of the unknown type \<open>regex\<close>, and a
  \<open>not_contains\<close> rule that passes.
\<close>

lemma validate_rules_sample:
  "\<exists>outs. validate_rules ''Your current account balance is $5,423.67'' sample_rules = Inr outs \<and>
      length outs = 3 \<and>
      outs ! 0 = \<lparr>o_rule = Some ''Contains balance amount'', o_passed = Some True\<rparr> \<and>
      outs ! 1 = \<lparr>o_rule = Some ''regex'', o_passed = Some False\<rparr> \<and>
      outs ! 2 = \<lparr>o_rule = Some ''not_contains'', o_passed = Some True\<rparr>"
proof -
  let ?resp = "''Your current account balance is $5,423.67''"
  have h: "\<forall>r \<in> set sample_rules. rule_type r \<noteq> None" by code_simp
  obtain outs where o: "validate_rules ?resp sample_rules = Inr outs"
    and l: "length outs = length sample_rules"
    and e: "\<forall>i < length sample_rules. \<forall>rt. rule_type (sample_rules ! i) = Some rt \<longrightarrow>
              outs ! i = rule_result ?resp rt (sample_rules ! i) \<and>
              (rt \<notin> set known_kinds \<longrightarrow> o_passed (outs ! i) = Some False)"
    using validate_rules_one_outcome_per_rule [OF h, of ?resp] by blast
  have n: "length sample_rules = 3" by code_simp
  have t0: "rule_type (sample_rules ! 0) = Some ''contains''" by code_simp
  have t1: "rule_type (sample_rules ! 1) = Some ''regex''" by code_simp
  have t2: "rule_type (sample_rules ! 2) = Some ''not_contains''" by code_simp
  have r0: "rule_result ?resp ''contains'' (sample_rules ! 0) =
      \<lparr>o_rule = Some ''Contains balance amount'', o_passed = Some True\<rparr>" by code_simp
  have r1: "rule_result ?resp ''regex'' (sample_rules ! 1) =
      \<lparr>o_rule = Some ''regex'', o_passed = Some False\<rparr>" by code_simp
  have r2: "rule_result ?resp ''not_contains'' (sample_rules ! 2) =
      \<lparr>o_rule = Some ''not_contains'', o_passed = Some True\<rparr>" by code_simp
  have o0: "outs ! 0 = rule_result ?resp ''contains'' (sample_rules ! 0)"
    using e n t0 by simp
  have o1: "outs ! 1 = rule_result ?resp ''regex'' (sample_rules ! 1)"
    using e n t1 by simp
  have o2: "outs ! 2 = rule_result ?resp ''not_contains'' (sample_rules ! 2)"
    using e n t2 by simp
  show ?thesis
    using o l n o0 o1 o2 r0 r1 r2 by simp
qed

text \<open>
  C9 at a failing input: a rule \<open>{'keywords': ['same']}\<close>, with no \<open>type\<close> key, makes
  \<open>validate_rules\<close> raise \<open>KeyError\<close> where C9 says it gives an outcome marked not
  passed, and a batch of three test cases whose second case carries that rule raises too:
  \<open>evaluate_all\<close> returns no summary, and the results of the two other cases are lost.
\<close>

theorem validate_rules_missing_type:
  "validate_rules ''same'' [untyped_rule] = Inl (KeyError ''type'') \<and>
   evaluate_single echo_evaluator passing_case \<noteq> Inl (KeyError ''type'') \<and>
   evaluate_all echo_evaluator ''2026'' batch_with_untyped_rule = Inl (KeyError ''type'')"
  by code_simp

section \<open>The status of the PR comment (C10)\<close>

text \<open>
  C10. When \<open>normalize_results\<close> returns, the status and the decision paragraph of the
  comment follow from the normalized pass rate alone: PASSED and approved for merge from 95
  up, WARNING and conditional approval from 90 up to 95, FAILED and blocked below 90. The
  normalized pass rate is the \<open>pass_rate\<close> field when present, else 100 times
  \<open>passed\<close> over \<open>total_tests\<close> when both are present, else 0, which gives FAILED. The
  detailed results, from which the checker takes critical categories, similarity and
  hallucinations, are not read.
\<close>

theorem pr_comment_status:
  "(\<forall>nrm. normalize_results now res = Inr nrm \<longrightarrow>
      (\<exists>c. create_pr_comment now res run_url = Inr c \<and>
         (95 \<le> n_pass_rate nrm \<longrightarrow>
            c_status c = PASSED \<and> c_decision c = APPROVED_FOR_MERGE) \<and>
         (90 \<le> n_pass_rate nrm \<and> n_pass_rate nrm < 95 \<longrightarrow>
            c_status c = WARNING \<and> c_decision c = CONDITIONAL_APPROVAL) \<and>
         (n_pass_rate nrm < 90 \<longrightarrow>
            c_status c = FAILED \<and> c_decision c = BLOCKED_FROM_MERGE))) \<and>
   (r_pass_rate res = None \<and> (r_passed res = None \<or> r_total_tests res = None) \<longrightarrow>
      (\<exists>nrm c. normalize_results now res = Inr nrm \<and> n_pass_rate nrm = 0 \<and>
         create_pr_comment now res run_url = Inr c \<and>
         c_status c = FAILED \<and> c_decision c = BLOCKED_FROM_MERGE)) \<and>
   (\<forall>pr. r_pass_rate res = Some pr \<longrightarrow>
      (\<exists>nrm. normalize_results now res = Inr nrm \<and> n_pass_rate nrm = pr)) \<and>
   (\<forall>p t. r_pass_rate res = None \<and> r_passed res = Some p \<and> r_total_tests res = Some t \<and> t \<noteq> 0 \<longrightarrow>
      (\<exists>nrm. normalize_results now res = Inr nrm \<and> n_pass_rate nrm = 100 * p / t)) \<and>
   create_pr_comment now (res\<lparr>r_results := details\<rparr>) run_url =
     create_pr_comment now res run_url"
  by (auto simp add: create_pr_comment_def normalize_results_def Let_def
        split: option.splits sum.splits)

text \<open>
  Witness for C10: pass rates 95 and 90, 17 of 20 tests passed, and the empty dictionary.
\<close>

theorem pr_comment_status_witness:
  "(\<exists>c. create_pr_comment ''2026'' (empty_results\<lparr>r_pass_rate := Some 95\<rparr>) None = Inr c \<and>
       c_status c = PASSED \<and> c_decision c = APPROVED_FOR_MERGE) \<and>
   (\<exists>c. create_pr_comment ''2026'' (empty_results\<lparr>r_pass_rate := Some 90\<rparr>) None = Inr c \<and>
       c_status c = WARNING \<and> c_decision c = CONDITIONAL_APPROVAL) \<and>
   (\<exists>c. create_pr_comment ''2026'' (empty_results\<lparr>r_passed := Some 17, r_total_tests := Some 20\<rparr>) None = Inr c \<and>
       c_status c = FAILED \<and> c_decision c = BLOCKED_FROM_MERGE) \<and>
   (\<exists>c. create_pr_comment ''2026'' empty_results None = Inr c \<and>
       c_status c = FAILED \<and> c_decision c = BLOCKED_FROM_MERGE)"
proof -
  let ?a = "empty_results\<lparr>r_pass_rate := Some 95\<rparr>"
  let ?b = "empty_results\<lparr>r_pass_rate := Some 90\<rparr>"
  let ?c = "empty_results\<lparr>r_passed := Some 17, r_total_tests := Some 20\<rparr>"
  have ha: "r_pass_rate ?a = Some 95" by code_simp
  have hb: "r_pass_rate ?b = Some 90" by code_simp
  have hc: "r_pass_rate ?c = None \<and> r_passed ?c = Some 17 \<and> r_total_tests ?c = Some 20 \<and> (20::rat) \<noteq> 0"
    by code_simp
  have hd: "r_pass_rate empty_results = None \<and>
      (r_passed empty_results = None \<or> r_total_tests empty_results = None)"
    by code_simp
  note A = pr_comment_status [of "''2026''" ?a None]
  note B = pr_comment_status [of "''2026''" ?b None]
  note C = pr_comment_status [of "''2026''" ?c None]
  note D = pr_comment_status [of "''2026''" empty_results None]
  from A [THEN conjunct2, THEN conjunct2, THEN conjunct1, rule_format, OF ha]
  obtain na where na: "normalize_results ''2026'' ?a = Inr na" "n_pass_rate na = 95" by blast
  from A [THEN conjunct1, rule_format, OF na(1)]
  obtain ca where ca: "create_pr_comment ''2026'' ?a None = Inr ca"
      "95 \<le> n_pass_rate na \<longrightarrow> c_status ca = PASSED \<and> c_decision ca = APPROVED_FOR_MERGE"
    by blast
  have a: "\<exists>c. create_pr_comment ''2026'' ?a None = Inr c \<and>
       c_status c = PASSED \<and> c_decision c = APPROVED_FOR_MERGE"
    using ca na(2) by simp
  from B [THEN conjunct2, THEN conjunct2, THEN conjunct1, rule_format, OF hb]
  obtain nb where nb: "normalize_results ''2026'' ?b = Inr nb" "n_pass_rate nb = 90" by blast
  from B [THEN conjunct1, rule_format, OF nb(1)]
  obtain cb where cb: "create_pr_comment ''2026'' ?b None = Inr cb"
      "90 \<le> n_pass_rate nb \<and> n_pass_rate nb < 95 \<longrightarrow>
         c_status cb = WARNING \<and> c_decision cb = CONDITIONAL_APPROVAL"
    by blast
  have b: "\<exists>c. create_pr_comment ''2026'' ?b None = Inr c \<and>
       c_status c = WARNING \<and> c_decision c = CONDITIONAL_APPROVAL"
    using cb nb(2) by simp
  from C [THEN conjunct2, THEN conjunct2, THEN conjunct2, THEN conjunct1, rule_format, OF hc]
  obtain nc where nc: "normalize_results ''2026'' ?c = Inr nc" "n_pass_rate nc = 100 * 17 / 20"
    by blast
  from C [THEN conjunct1, rule_format, OF nc(1)]
  obtain cc where cc: "create_pr_comment ''2026'' ?c None = Inr cc"
      "n_pass_rate nc < 90 \<longrightarrow> c_status cc = FAILED \<and> c_decision cc = BLOCKED_FROM_MERGE"
    by blast
  have c: "\<exists>c. create_pr_comment ''2026'' ?c None = Inr c \<and>
       c_status c = FAILED \<and> c_decision c = BLOCKED_FROM_MERGE"
    using cc nc(2) by simp
  from D [THEN conjunct2, THEN conjunct1, rule_format, OF hd]
  have d: "\<exists>c. create_pr_comment ''2026'' empty_results None = Inr c \<and>
       c_status c = FAILED \<and> c_decision c = BLOCKED_FROM_MERGE"
    by blast
  show ?thesis using a b c d by (intro conjI)
qed

end
